theory Spec2Isabelle
  imports
    Complex_Main
    "HOL-Library.Multiset"
    "HOL-Library.Char_ord"
    "HOL-Library.List_Lexorder"
    "HOL-Library.Product_Lexorder"
begin

section \<open>Data model of \<^verbatim>\<open>data_preparation.py\<close>\<close>

text \<open>
  A pandas \<^verbatim>\<open>DataFrame\<close> is modelled as the list of its rows, in row order, each row a
  record of the columns the pipeline reads. The columns hold the values pandas parses
  them to: a date column holds timestamps, the \<^verbatim>\<open>value\<close> column holds float64 values.

  A \<^verbatim>\<open>pd.Timestamp\<close> is its number of nanoseconds since the epoch (an int64 in pandas;
  here an unbounded \<open>int\<close>, the subtraction of two timestamps that overflows int64 is
  outside the model). A missing \<^verbatim>\<open>stop\<close> date (\<^verbatim>\<open>NaT\<close>) is \<open>None\<close>.
\<close>

type_synonym timestamp = int

definition Timestamp_max :: timestamp where
  \<comment> \<open>\<^verbatim>\<open>pd.Timestamp.max\<close>, 2262-04-11 23:47:16.854775807\<close>
  "Timestamp_max = 9223372036854775807"

definition ns_per_day :: int where
  "ns_per_day = 86400000000000"

text \<open>
  A float64 cell is either \<^verbatim>\<open>NaN\<close> or a number. The numbers themselves (type \<open>'f\<close>) and
  the machine arithmetic on them are not fixed by the repository: they are the parameter
  \<open>float_ops\<close> below, so that every result holds for IEEE arithmetic with its rounding as
  well as for exact arithmetic.
\<close>

datatype 'f float64 = NaN | Num 'f

record 'f float_ops =
  fsub :: "'f \<Rightarrow> 'f \<Rightarrow> 'f float64"
  fmul :: "'f \<Rightarrow> 'f \<Rightarrow> 'f float64"
  fdiv :: "'f \<Rightarrow> 'f \<Rightarrow> 'f float64"
  fzero :: "'f \<Rightarrow> bool"
  hundred :: "'f"

text \<open>The exceptions of Python that the modelled code can reach.\<close>

datatype error = IndexError | KeyError | ValueError | TypeError | ZeroDivisionError

record medication =
  med_patient :: string
  med_code :: string
  med_description :: string
  med_start :: timestamp
  med_stop :: "timestamp option"
  med_reasondescription :: "string option"


record 'f timeline_record =
  tl_patient :: string
  tl_med_code :: string
  tl_med_description :: string
  tl_med_start_date :: timestamp
  tl_obs_code :: string
  tl_obs_description :: string
  tl_obs_date :: timestamp
  tl_days_relative :: int
  tl_value :: "'f float64"
  tl_units :: string

record 'f outcome_record =
  out_patient :: string
  out_med_code :: string
  out_med_description :: string
  out_obs_code :: string
  out_obs_description :: string
  out_pre_value :: "'f float64"
  out_post_value :: "'f float64"
  out_change :: "'f float64"
  out_percent_change :: "'f float64"
  out_pre_date :: timestamp
  out_post_date :: timestamp
  out_days_between :: int
  out_units :: string

section \<open>pandas and Python primitives\<close>

definition to_datetime :: "timestamp \<Rightarrow> timestamp" where
  \<comment> \<open>\<^verbatim>\<open>pd.to_datetime\<close> on a value that is a timestamp already\<close>
  "to_datetime t = t"

definition to_numeric :: "'f float64 \<Rightarrow> 'f float64" where
  \<comment> \<open>\<^verbatim>\<open>pd.to_numeric(..., errors="coerce")\<close> on a value that is a float64 already\<close>
  "to_numeric v = v"

definition fillna :: "timestamp \<Rightarrow> timestamp option \<Rightarrow> timestamp option" where
  "fillna d c = (case c of None \<Rightarrow> Some d | Some t \<Rightarrow> Some t)"



section \<open>Medication Period Normalizer\<close>

definition create_medication_periods :: "medication list \<Rightarrow> medication list" where
  "create_medication_periods medications_df =
     (let df1 = map (\<lambda>r. r\<lparr>med_start := to_datetime (med_start r)\<rparr>) medications_df;
          df2 = map (\<lambda>r. r\<lparr>med_stop := map_option to_datetime (med_stop r)\<rparr>) df1;
          df3 = map (\<lambda>r. r\<lparr>med_stop := fillna Timestamp_max (med_stop r)\<rparr>) df2
      in df3)"

section \<open>Observation Timeline Builder\<close>





section \<open>Outcome Resolver\<close>

subsection \<open>Primitives\<close>

definition groupby :: "('a \<Rightarrow> 'k::linorder) \<Rightarrow> 'a list \<Rightarrow> ('k \<times> 'a list) list" where
  \<comment> \<open>\<^verbatim>\<open>DataFrame.groupby\<close>: the groups in ascending key order, each with its rows in row order\<close>
  "groupby key df = map (\<lambda>k. (k, filter (\<lambda>r. key r = k) df)) (sort (remdups (map key df)))"

definition iloc :: "'a list \<Rightarrow> int \<Rightarrow> error + 'a" where
  \<comment> \<open>\<^verbatim>\<open>.iloc[i]\<close>: by position, a negative position counts from the end\<close>
  "iloc df i =
     (if 0 \<le> i \<and> i < int (length df) then Inr (df ! nat i)
      else if i < 0 \<and> - int (length df) \<le> i then Inr (df ! nat (int (length df) + i))
      else Inl IndexError)"

fun first_position :: "'a \<Rightarrow> 'a list \<Rightarrow> nat" where
  "first_position v [] = 0"
| "first_position v (x # xs) = (if x = v then 0 else Suc (first_position v xs))"

definition idxmin :: "int list \<Rightarrow> error + nat" where
  \<comment> \<open>\<^verbatim>\<open>Series.idxmin()\<close>: the row of the first occurrence of the minimum; the rows of a
      group keep the distinct labels of the timeline, so a label is a position in the group\<close>
  "idxmin col = (if col = [] then Inl ValueError else Inr (first_position (min_list col) col))"

definition loc :: "'a list \<Rightarrow> nat \<Rightarrow> error + 'a" where
  "loc df i = (if i < length df then Inr (df ! i) else Inl KeyError)"

definition py_float :: "'f float64 \<Rightarrow> error + 'f float64" where
  \<comment> \<open>\<^verbatim>\<open>float(x)\<close> of a float64 is that number\<close>
  "py_float x = Inr x"

definition py_sub :: "'f float_ops \<Rightarrow> 'f float64 \<Rightarrow> 'f float64 \<Rightarrow> 'f float64" where
  "py_sub ops a b = (case (a, b) of (Num x, Num y) \<Rightarrow> fsub ops x y | _ \<Rightarrow> NaN)"

definition py_mul :: "'f float_ops \<Rightarrow> 'f float64 \<Rightarrow> 'f float64 \<Rightarrow> 'f float64" where
  "py_mul ops a b = (case (a, b) of (Num x, Num y) \<Rightarrow> fmul ops x y | _ \<Rightarrow> NaN)"

definition py_is_zero :: "'f float_ops \<Rightarrow> 'f float64 \<Rightarrow> bool" where
  \<comment> \<open>\<^verbatim>\<open>x == 0\<close>: false for NaN\<close>
  "py_is_zero ops a = (case a of NaN \<Rightarrow> False | Num x \<Rightarrow> fzero ops x)"

definition py_truediv :: "'f float_ops \<Rightarrow> 'f float64 \<Rightarrow> 'f float64 \<Rightarrow> error + 'f float64" where
  \<comment> \<open>\<^verbatim>\<open>a / b\<close> on Python floats: a zero divisor raises, whatever the dividend\<close>
  "py_truediv ops a b =
     (if py_is_zero ops b then Inl ZeroDivisionError
      else Inr (case (a, b) of (Num x, Num y) \<Rightarrow> fdiv ops x y | _ \<Rightarrow> NaN))"

subsection \<open>The change of one group\<close>

definition change_body ::
  "'f float_ops \<Rightarrow> 'f float64 \<Rightarrow> 'f float64 \<Rightarrow> error + ('f float64 \<times> 'f float64)" where
  \<comment> \<open>the body of the \<^verbatim>\<open>try\<close>\<close>
  "change_body ops pre_value post_value =
     (case py_float post_value of Inl e \<Rightarrow> Inl e | Inr post \<Rightarrow>
     (case py_float pre_value of Inl e \<Rightarrow> Inl e | Inr pre \<Rightarrow>
        (let change = py_sub ops post pre in
         if \<not> py_is_zero ops pre then
           (case py_truediv ops change pre of Inl e \<Rightarrow> Inl e
            | Inr q \<Rightarrow> Inr (change, py_mul ops q (Num (hundred ops))))
         else Inr (change, NaN))))"

definition calculate_change ::
  "'f float_ops \<Rightarrow> 'f float64 \<Rightarrow> 'f float64 \<Rightarrow> error + ('f float64 \<times> 'f float64)" where
  \<comment> \<open>\<^verbatim>\<open>try: ... except (ValueError, TypeError): change = percent_change = np.nan\<close>\<close>
  "calculate_change ops pre_value post_value =
     (case change_body ops pre_value post_value of
        Inr cp \<Rightarrow> Inr cp
      | Inl e \<Rightarrow> if e = ValueError \<or> e = TypeError then Inr (NaN, NaN) else Inl e)"

subsection \<open>One (patient, medication, metric) group\<close>

text \<open>
  \<^verbatim>\<open>sort_values("days_relative")\<close> sorts with numpy's default \<^verbatim>\<open>quicksort\<close>, which need not
  keep rows of equal \<^verbatim>\<open>days_relative\<close> in their order. The sort is therefore a parameter
  \<open>sort_values\<close> of the resolver, of which the theorems assume only \<open>sorts_by_days\<close>: the
  result holds the same rows, in ascending \<^verbatim>\<open>days_relative\<close>.
\<close>

definition sorts_by_days ::
  "('f timeline_record list \<Rightarrow> 'f timeline_record list) \<Rightarrow> bool" where
  "sorts_by_days sort_values \<longleftrightarrow>
     (\<forall>df. mset (sort_values df) = mset df \<and> sorted (map tl_days_relative (sort_values df)))"

definition resolve_obs_group ::
  "'f float_ops \<Rightarrow> ('f timeline_record list \<Rightarrow> 'f timeline_record list) \<Rightarrow>
   string \<times> string \<times> string \<Rightarrow> string \<Rightarrow> 'f timeline_record list \<Rightarrow>
   error + 'f outcome_record option" where
  \<comment> \<open>the body of the inner loop; \<open>Inr None\<close> is \<^verbatim>\<open>continue\<close>\<close>
  "resolve_obs_group ops sort_values key obs_code' obs_group =
     (case key of (patient, med_code', med_desc) \<Rightarrow>
      if length obs_group < 2 then Inr None
      else
       (case iloc (map tl_obs_description obs_group) 0 of Inl e \<Rightarrow> Inl e | Inr obs_desc \<Rightarrow>
       (case iloc (map tl_units obs_group) 0 of Inl e \<Rightarrow> Inl e | Inr units \<Rightarrow>
        (let obs_group' = sort_values obs_group;
             pre_med = filter (\<lambda>r. tl_days_relative r \<le> 0) obs_group'
         in if length pre_med > 0 then
             (case iloc pre_med (- 1) of Inl e \<Rightarrow> Inl e | Inr pre_row \<Rightarrow>
              (let pre_value = tl_value pre_row;
                   pre_date = tl_obs_date pre_row;
                   post_med = filter (\<lambda>r. tl_days_relative r > 0) obs_group'
               in if length post_med > 0 then
                   (let target_days = 180;
                        days_diff = map (\<lambda>r. \<bar>tl_days_relative r - target_days\<bar>) post_med
                    in (case idxmin days_diff of Inl e \<Rightarrow> Inl e | Inr closest_idx \<Rightarrow>
                       (case loc post_med closest_idx of Inl e \<Rightarrow> Inl e | Inr post_row \<Rightarrow>
                        (let post_value = tl_value post_row;
                             post_date = tl_obs_date post_row;
                             actual_days = tl_days_relative post_row
                         in (case calculate_change ops pre_value post_value of Inl e \<Rightarrow> Inl e
                             | Inr (change, percent_change) \<Rightarrow>
                                 Inr (Some \<lparr>out_patient = patient,
                                            out_med_code = med_code',
                                            out_med_description = med_desc,
                                            out_obs_code = obs_code',
                                            out_obs_description = obs_desc,
                                            out_pre_value = pre_value,
                                            out_post_value = post_value,
                                            out_change = change,
                                            out_percent_change = percent_change,
                                            out_pre_date = pre_date,
                                            out_post_date = post_date,
                                            out_days_between = actual_days,
                                            out_units = units\<rparr>))))))
                  else Inr None))
            else Inr None))))"

subsection \<open>The two loops\<close>

fun obs_group_loop ::
  "'f float_ops \<Rightarrow> ('f timeline_record list \<Rightarrow> 'f timeline_record list) \<Rightarrow>
   string \<times> string \<times> string \<Rightarrow> (string \<times> 'f timeline_record list) list \<Rightarrow>
   'f outcome_record list \<Rightarrow> error + 'f outcome_record list" where
  "obs_group_loop ops sort_values key [] outcome_records = Inr outcome_records"
| "obs_group_loop ops sort_values key ((obs_code', obs_group) # rest) outcome_records =
     (case resolve_obs_group ops sort_values key obs_code' obs_group of
        Inl e \<Rightarrow> Inl e
      | Inr None \<Rightarrow> obs_group_loop ops sort_values key rest outcome_records
      | Inr (Some record) \<Rightarrow>
          obs_group_loop ops sort_values key rest (outcome_records @ [record]))"

fun group_loop ::
  "'f float_ops \<Rightarrow> ('f timeline_record list \<Rightarrow> 'f timeline_record list) \<Rightarrow>
   ((string \<times> string \<times> string) \<times> 'f timeline_record list) list \<Rightarrow>
   'f outcome_record list \<Rightarrow> error + 'f outcome_record list" where
  "group_loop ops sort_values [] outcome_records = Inr outcome_records"
| "group_loop ops sort_values ((key, group_df) # rest) outcome_records =
     (case obs_group_loop ops sort_values key (groupby tl_obs_code group_df) outcome_records of
        Inl e \<Rightarrow> Inl e
      | Inr outcome_records' \<Rightarrow> group_loop ops sort_values rest outcome_records')"

definition create_patient_medication_outcomes ::
  "'f float_ops \<Rightarrow> ('f timeline_record list \<Rightarrow> 'f timeline_record list) \<Rightarrow>
   'f timeline_record list \<Rightarrow> error + 'f outcome_record list" where
  "create_patient_medication_outcomes ops sort_values timeline_df =
     (if timeline_df = [] then Inr []
      else let timeline_df' = map (\<lambda>r. r\<lparr>tl_value := to_numeric (tl_value r)\<rparr>) timeline_df
           in group_loop ops sort_values
                (groupby (\<lambda>r. (tl_patient r, tl_med_code r, tl_med_description r)) timeline_df') [])"

text \<open>
  The rows that reach the loop body for the keys \<open>(patient, med_code, med_desc)\<close> of the
  outer \<^verbatim>\<open>groupby\<close> and \<open>obs_code\<close> of the inner one, in the row order of the timeline;
  and the four keys of an outcome record.
\<close>

definition timeline_group ::
  "'f timeline_record list \<Rightarrow> string \<times> string \<times> string \<Rightarrow> string \<Rightarrow> 'f timeline_record list" where
  "timeline_group timeline_df key obs_code' =
     filter (\<lambda>r. tl_obs_code r = obs_code')
       (filter (\<lambda>r. (tl_patient r, tl_med_code r, tl_med_description r) = key) timeline_df)"

definition timeline_key :: "'f timeline_record \<Rightarrow> (string \<times> string \<times> string) \<times> string" where
  "timeline_key r = ((tl_patient r, tl_med_code r, tl_med_description r), tl_obs_code r)"

definition outcome_key :: "'f outcome_record \<Rightarrow> (string \<times> string \<times> string) \<times> string" where
  "outcome_key r = ((out_patient r, out_med_code r, out_med_description r), out_obs_code r)"

definition group_of :: "'f timeline_record list \<Rightarrow> 'f outcome_record \<Rightarrow> 'f timeline_record list" where
  \<comment> \<open>the group of the timeline that has the keys of an outcome record\<close>
  "group_of timeline_df r =
     timeline_group timeline_df (fst (outcome_key r)) (snd (outcome_key r))"

section \<open>The stages on shared DataFrame objects\<close>










section \<open>Instances for evaluation\<close>

text \<open>
  Exact rational arithmetic as one instance of the float operations, and the stable
  insertion sort as one instance of the sort; concrete rows for the examples.
\<close>

definition exact_ops :: "rat float_ops" where
  "exact_ops = \<lparr>fsub = (\<lambda>x y. Num (x - y)), fmul = (\<lambda>x y. Num (x * y)),
                fdiv = (\<lambda>x y. Num (x / y)), fzero = (\<lambda>x. x = 0), hundred = 100\<rparr>"

definition stable_sort_values :: "'f timeline_record list \<Rightarrow> 'f timeline_record list" where
  "stable_sort_values = sort_key tl_days_relative"

definition day :: "int \<Rightarrow> timestamp" where
  \<comment> \<open>midnight of the day with that number\<close>
  "day n = n * ns_per_day"

definition med :: "string \<Rightarrow> string \<Rightarrow> int \<Rightarrow> timestamp option \<Rightarrow> medication" where
  "med p c d e = \<lparr>med_patient = p, med_code = c, med_description = c, med_start = day d,
                  med_stop = e, med_reasondescription = None\<rparr>"


definition tlr :: "int \<Rightarrow> rat float64 \<Rightarrow> string \<Rightarrow> rat timeline_record" where
  \<comment> \<open>a timeline row of patient P, medication M and metric X\<close>
  "tlr d v u = \<lparr>tl_patient = ''P'', tl_med_code = ''M'', tl_med_description = ''M'',
                 tl_med_start_date = 0, tl_obs_code = ''X'', tl_obs_description = u,
                 tl_obs_date = day d, tl_days_relative = d, tl_value = v, tl_units = u\<rparr>"

definition outcome ::
  "string \<Rightarrow> rat float64 \<Rightarrow> rat float64 \<Rightarrow> rat float64 \<Rightarrow> rat float64 \<Rightarrow> int \<Rightarrow> int \<Rightarrow>
   rat outcome_record" where
  \<comment> \<open>an outcome of patient P, medication M and metric X, from rows built by \<open>tlr\<close>\<close>
  "outcome u pre post change pct pre_day post_day =
     \<lparr>out_patient = ''P'', out_med_code = ''M'', out_med_description = ''M'',
      out_obs_code = ''X'', out_obs_description = u, out_pre_value = pre,
      out_post_value = post, out_change = change, out_percent_change = pct,
      out_pre_date = day pre_day, out_post_date = day post_day,
      out_days_between = post_day, out_units = u\<rparr>"

definition tl_three_rows :: "rat timeline_record list" where
  "tl_three_rows =
     [tlr (- 40) (Num 8) ''mg/dL'', tlr 200 (Num 7) ''mmol/L'', tlr (- 3) (Num 9) ''%'']"

definition tl_four_posts :: "rat timeline_record list" where
  "tl_four_posts =
     [tlr 400 (Num 1) ''u'', tlr 185 (Num 2) ''u'', tlr (- 5) (Num 3) ''u'',
      tlr 175 (Num 4) ''u'', tlr 10 (Num 5) ''u'']"

definition tl_no_pre :: "rat timeline_record list" where
  "tl_no_pre = [tlr 5 (Num 1) ''u'', tlr 200 (Num 2) ''u'']"

definition tl_zero_pre :: "rat timeline_record list" where
  "tl_zero_pre = [tlr (- 3) (Num 0) ''u'', tlr 200 (Num 7) ''u'']"

definition tl_nan_pre :: "rat timeline_record list" where
  "tl_nan_pre = [tlr (- 10) (Num 5) ''u'', tlr (- 3) NaN ''u'', tlr 200 (Num 7) ''u'']"

definition tl_nan_post :: "rat timeline_record list" where
  "tl_nan_post = [tlr (- 3) (Num 5) ''u'', tlr 170 NaN ''u'']"





section \<open>Auxiliary facts\<close>

subsection \<open>Normalizer and timeline builder\<close>

lemma create_medication_periods_map:
  "create_medication_periods ms =
     map (\<lambda>m. m\<lparr>med_stop := (case med_stop m of None \<Rightarrow> Some Timestamp_max | Some t \<Rightarrow> Some t)\<rparr>) ms"
  by (simp add: create_medication_periods_def to_datetime_def fillna_def Let_def option.map_ident
      split: option.splits cong: map_cong)










subsection \<open>Selection within a group\<close>

lemma first_position_less: "v \<in> set xs \<Longrightarrow> first_position v xs < length xs"
  by (induction xs) auto

lemma nth_first_position: "v \<in> set xs \<Longrightarrow> xs ! first_position v xs = v"
  by (induction xs) auto

lemma before_first_position: "j < first_position v xs \<Longrightarrow> xs ! j \<noteq> v"
proof (induction xs arbitrary: j)
  case Nil
  then show ?case by simp
next
  case (Cons x xs)
  then show ?case by (cases j) (auto split: if_splits)
qed

lemma min_list_in: "(xs :: int list) \<noteq> [] \<Longrightarrow> min_list xs \<in> set xs"
  by (simp add: min_list_Min)

lemma min_list_le: "(x::int) \<in> set xs \<Longrightarrow> min_list xs \<le> x"
  by (cases "xs = []") (simp_all add: min_list_Min)

lemma idxmin_map:
  assumes "df \<noteq> []"
  obtains k where "idxmin (map f df) = Inr k" "k < length df"
    "\<forall>y \<in> set df. f (df ! k) \<le> f y" "\<forall>j < k. f (df ! j) \<noteq> f (df ! k)"
proof -
  let ?col = "map f df"
  let ?k = "first_position (min_list ?col) ?col"
  from assms have ne: "?col \<noteq> []" by simp
  then have mem: "min_list ?col \<in> set ?col" by (rule min_list_in)
  have k: "?k < length df" using first_position_less[OF mem] by simp
  have at: "f (df ! ?k) = min_list ?col" using nth_first_position[OF mem] k by simp
  have 1: "idxmin ?col = Inr ?k" using ne by (simp add: idxmin_def)
  have 3: "\<forall>y \<in> set df. f (df ! ?k) \<le> f y"
    unfolding at by (auto intro: min_list_le)
  have 4: "\<forall>j < ?k. f (df ! j) \<noteq> f (df ! ?k)"
  proof (intro allI impI)
    fix j assume j: "j < ?k"
    then have "?col ! j \<noteq> min_list ?col" by (rule before_first_position)
    moreover have "j < length df" using j k by simp
    ultimately show "f (df ! j) \<noteq> f (df ! ?k)" unfolding at by simp
  qed
  from 1 k 3 4 that show thesis by blast
qed

lemma calculate_change_eq:
  "calculate_change ops pre post =
     Inr (py_sub ops post pre,
          (case pre of NaN \<Rightarrow> NaN
           | Num a \<Rightarrow> if fzero ops a then NaN
                      else (case py_sub ops post pre of NaN \<Rightarrow> NaN
                            | Num c \<Rightarrow> py_mul ops (fdiv ops c a) (Num (hundred ops)))))"
  by (simp add: calculate_change_def change_body_def py_float_def py_truediv_def py_is_zero_def
      py_mul_def Let_def split: float64.splits)

lemma iloc_first: "iloc df 0 = (if df = [] then Inl IndexError else Inr (hd df))"
  by (simp add: iloc_def hd_conv_nth)

lemma iloc_last: "iloc df (- 1) = (if df = [] then Inl IndexError else Inr (last df))"
proof (cases df rule: rev_cases)
  case Nil
  then show ?thesis by (simp add: iloc_def)
next
  case (snoc ys y)
  then show ?thesis by (simp add: iloc_def nat_add_distrib)
qed

lemma resolve_obs_group_skip:
  assumes "length g < 2 \<or> filter (\<lambda>r. tl_days_relative r \<le> 0) (srt g) = []
           \<or> filter (\<lambda>r. tl_days_relative r > 0) (srt g) = []"
  shows "resolve_obs_group ops srt key oc g = Inr None"
  using assms
  by (cases key) (auto simp: resolve_obs_group_def iloc_first iloc_last Let_def)

lemma resolve_obs_group_emit:
  fixes g :: "'f timeline_record list"
    and srt :: "'f timeline_record list \<Rightarrow> 'f timeline_record list"
  defines "gap \<equiv> \<lambda>r :: 'f timeline_record. \<bar>tl_days_relative r - 180\<bar>"
    and "pre_med \<equiv> filter (\<lambda>r. tl_days_relative r \<le> 0) (srt g)"
    and "post_med \<equiv> filter (\<lambda>r. tl_days_relative r > 0) (srt g)"
  assumes len: "2 \<le> length g" and pre: "pre_med \<noteq> []" and post: "post_med \<noteq> []"
  obtains k where "k < length post_med"
    "\<forall>y \<in> set post_med. gap (post_med ! k) \<le> gap y"
    "\<forall>j < k. gap (post_med ! j) \<noteq> gap (post_med ! k)"
    "resolve_obs_group ops srt (p, mc, md) oc g =
       Inr (Some \<lparr>out_patient = p, out_med_code = mc, out_med_description = md,
                  out_obs_code = oc, out_obs_description = tl_obs_description (hd g),
                  out_pre_value = tl_value (last pre_med),
                  out_post_value = tl_value (post_med ! k),
                  out_change = py_sub ops (tl_value (post_med ! k)) (tl_value (last pre_med)),
                  out_percent_change =
                    (case tl_value (last pre_med) of NaN \<Rightarrow> NaN
                     | Num a \<Rightarrow> if fzero ops a then NaN
                         else (case py_sub ops (tl_value (post_med ! k)) (tl_value (last pre_med)) of
                                 NaN \<Rightarrow> NaN
                               | Num c \<Rightarrow> py_mul ops (fdiv ops c a) (Num (hundred ops)))),
                  out_pre_date = tl_obs_date (last pre_med),
                  out_post_date = tl_obs_date (post_med ! k),
                  out_days_between = tl_days_relative (post_med ! k),
                  out_units = tl_units (hd g)\<rparr>)"
proof -
  from post obtain k where k: "idxmin (map gap post_med) = Inr k" "k < length post_med"
    "\<forall>y \<in> set post_med. gap (post_med ! k) \<le> gap y" "\<forall>j < k. gap (post_med ! j) \<noteq> gap (post_med ! k)"
    by (rule idxmin_map)
  from len have g: "g \<noteq> []" by auto
  have first: "iloc (map tl_obs_description g) 0 = Inr (tl_obs_description (hd g))"
       "iloc (map tl_units g) 0 = Inr (tl_units (hd g))"
    using g by (simp_all add: iloc_first hd_map)
  have lst: "iloc pre_med (- 1) = Inr (last pre_med)"
    using pre by (simp add: iloc_last)
  have lc: "loc post_med k = Inr (post_med ! k)" using k(2) by (simp add: loc_def)
  have "resolve_obs_group ops srt (p, mc, md) oc g = Inr (Some \<lparr>out_patient = p, out_med_code = mc, out_med_description = md,
                  out_obs_code = oc, out_obs_description = tl_obs_description (hd g),
                  out_pre_value = tl_value (last pre_med),
                  out_post_value = tl_value (post_med ! k),
                  out_change = py_sub ops (tl_value (post_med ! k)) (tl_value (last pre_med)),
                  out_percent_change =
                    (case tl_value (last pre_med) of NaN \<Rightarrow> NaN
                     | Num a \<Rightarrow> if fzero ops a then NaN
                         else (case py_sub ops (tl_value (post_med ! k)) (tl_value (last pre_med)) of
                                 NaN \<Rightarrow> NaN
                               | Num c \<Rightarrow> py_mul ops (fdiv ops c a) (Num (hundred ops)))),
                  out_pre_date = tl_obs_date (last pre_med),
                  out_post_date = tl_obs_date (post_med ! k),
                  out_days_between = tl_days_relative (post_med ! k),
                  out_units = tl_units (hd g)\<rparr>)"
    using len pre post k(1) first lst lc unfolding resolve_obs_group_def gap_def pre_med_def post_med_def
    by (simp add: calculate_change_eq Let_def)
  with k that show thesis by blast
qed

subsection \<open>The loops of the resolver\<close>

lemma resolve_obs_group_total:
  "\<exists>res. resolve_obs_group ops srt key oc g = Inr res"
proof (cases "length g < 2 \<or> filter (\<lambda>r. tl_days_relative r \<le> 0) (srt g) = []
           \<or> filter (\<lambda>r. tl_days_relative r > 0) (srt g) = []")
  case True
  then show ?thesis by (simp add: resolve_obs_group_skip)
next
  case False
  obtain p mc md where key: "key = (p, mc, md)" by (cases key)
  from False have "2 \<le> length g" "filter (\<lambda>r. tl_days_relative r \<le> 0) (srt g) \<noteq> []"
    "filter (\<lambda>r. tl_days_relative r > 0) (srt g) \<noteq> []" by auto
  then show ?thesis
    unfolding key by (rule resolve_obs_group_emit[where g=g and srt=srt and ops=ops and p=p and mc=mc and md=md and oc=oc]) blast
qed

lemma resolve_obs_group_Some_iff:
  "(\<exists>r. resolve_obs_group ops srt key oc g = Inr (Some r)) \<longleftrightarrow>
     2 \<le> length g \<and> filter (\<lambda>r. tl_days_relative r \<le> 0) (srt g) \<noteq> []
       \<and> filter (\<lambda>r. tl_days_relative r > 0) (srt g) \<noteq> []"
proof
  assume "\<exists>r. resolve_obs_group ops srt key oc g = Inr (Some r)"
  then show "2 \<le> length g \<and> filter (\<lambda>r. tl_days_relative r \<le> 0) (srt g) \<noteq> []
       \<and> filter (\<lambda>r. tl_days_relative r > 0) (srt g) \<noteq> []"
    using resolve_obs_group_skip[of g srt ops key oc] by fastforce
next
  obtain p mc md where key: "key = (p, mc, md)" by (cases key)
  assume "2 \<le> length g \<and> filter (\<lambda>r. tl_days_relative r \<le> 0) (srt g) \<noteq> []
       \<and> filter (\<lambda>r. tl_days_relative r > 0) (srt g) \<noteq> []"
  then have "2 \<le> length g" "filter (\<lambda>r. tl_days_relative r \<le> 0) (srt g) \<noteq> []"
    "filter (\<lambda>r. tl_days_relative r > 0) (srt g) \<noteq> []" by auto
  then show "\<exists>r. resolve_obs_group ops srt key oc g = Inr (Some r)"
    unfolding key by (rule resolve_obs_group_emit[where g=g and srt=srt and ops=ops and p=p and mc=mc and md=md and oc=oc]) blast
qed

lemma resolve_obs_group_key:
  assumes "resolve_obs_group ops srt key oc g = Inr (Some r)"
  shows "outcome_key r = (key, oc)"
proof -
  obtain p mc md where key: "key = (p, mc, md)" by (cases key)
  from assms have c: "2 \<le> length g" "filter (\<lambda>r. tl_days_relative r \<le> 0) (srt g) \<noteq> []"
    "filter (\<lambda>r. tl_days_relative r > 0) (srt g) \<noteq> []"
    using resolve_obs_group_Some_iff[of ops srt key oc g] by blast+
  obtain r' where "resolve_obs_group ops srt (p, mc, md) oc g = Inr (Some r')"
      "outcome_key r' = ((p, mc, md), oc)"
    by (rule resolve_obs_group_emit[where g=g and srt=srt and ops=ops and p=p and mc=mc and md=md and oc=oc, OF c(1) c(2) c(3)])
       (simp add: outcome_key_def)
  with assms show ?thesis unfolding key by simp
qed

lemma obs_group_loop_set:
  "\<exists>outs. obs_group_loop ops srt key gs acc = Inr outs \<and>
     set outs = set acc \<union> {r. \<exists>(oc, g) \<in> set gs. resolve_obs_group ops srt key oc g = Inr (Some r)}"
proof (induction gs arbitrary: acc)
  case Nil
  then show ?case by simp
next
  case (Cons a gs)
  obtain oc g where a: "a = (oc, g)" by (cases a)
  obtain res where res: "resolve_obs_group ops srt key oc g = Inr res"
    using resolve_obs_group_total by blast
  show ?case
  proof (cases res)
    case None
    with Cons[of acc] res a show ?thesis by auto
  next
    case (Some r)
    with Cons[of "acc @ [r]"] res a show ?thesis by auto
  qed
qed

lemma group_loop_set:
  "\<exists>outs. group_loop ops srt grps acc = Inr outs \<and>
     set outs = set acc \<union> {r. \<exists>(key, grp) \<in> set grps. \<exists>(oc, g) \<in> set (groupby tl_obs_code grp).
                    resolve_obs_group ops srt key oc g = Inr (Some r)}"
proof (induction grps arbitrary: acc)
  case Nil
  then show ?case by simp
next
  case (Cons a grps)
  obtain key grp where a: "a = (key, grp)" by (cases a)
  obtain acc' where acc': "obs_group_loop ops srt key (groupby tl_obs_code grp) acc = Inr acc'"
     "set acc' = set acc \<union> {r. \<exists>(oc, g) \<in> set (groupby tl_obs_code grp).
         resolve_obs_group ops srt key oc g = Inr (Some r)}"
    using obs_group_loop_set by blast
  from Cons[of acc'] obtain outs where outs: "group_loop ops srt grps acc' = Inr outs"
    "set outs = set acc' \<union> {r. \<exists>(key, grp) \<in> set grps. \<exists>(oc, g) \<in> set (groupby tl_obs_code grp).
                    resolve_obs_group ops srt key oc g = Inr (Some r)}" by blast
  have "group_loop ops srt (a # grps) acc = Inr outs"
    using a acc'(1) outs(1) by simp
  moreover have "set outs = set acc \<union> {r. \<exists>(key, grp) \<in> set (a # grps). \<exists>(oc, g) \<in> set (groupby tl_obs_code grp).
                    resolve_obs_group ops srt key oc g = Inr (Some r)}"
    unfolding outs(2) acc'(2) a by auto
  ultimately show ?case by blast
qed

lemma set_groupby:
  "set (groupby key df) = (\<lambda>k. (k, filter (\<lambda>r. key r = k) df)) ` key ` set df"
  by (simp add: groupby_def)

lemma outcomes_set:
  "\<exists>outs. create_patient_medication_outcomes ops srt tdf = Inr outs \<and>
     set outs = {r. \<exists>key oc. resolve_obs_group ops srt key oc (timeline_group tdf key oc) = Inr (Some r)}"
proof (cases "tdf = []")
  case True
  have "\<And>key oc. resolve_obs_group ops srt key oc [] = Inr None"
    by (rule resolve_obs_group_skip) simp
  with True show ?thesis
    by (simp add: create_patient_medication_outcomes_def timeline_group_def)
next
  case False
  let ?k3 = "\<lambda>r :: 'a timeline_record. (tl_patient r, tl_med_code r, tl_med_description r)"
  have id: "map (\<lambda>r. r\<lparr>tl_value := to_numeric (tl_value r)\<rparr>) tdf = tdf"
    by (simp add: to_numeric_def)
  obtain outs where outs: "group_loop ops srt (groupby ?k3 tdf) [] = Inr outs"
    "set outs = set [] \<union> {r. \<exists>(key, grp) \<in> set (groupby ?k3 tdf). \<exists>(oc, g) \<in> set (groupby tl_obs_code grp).
                    resolve_obs_group ops srt key oc g = Inr (Some r)}"
    using group_loop_set by blast
  have 1: "create_patient_medication_outcomes ops srt tdf = Inr outs"
    using False outs(1) by (simp add: create_patient_medication_outcomes_def id)
  have 2: "set outs = {r. \<exists>key oc. resolve_obs_group ops srt key oc (timeline_group tdf key oc) = Inr (Some r)}"
    (is "_ = ?R")
  proof (intro set_eqI iffI)
    fix r assume "r \<in> set outs"
    then show "r \<in> ?R"
      unfolding outs(2) set_groupby timeline_group_def by auto
  next
    fix r assume "r \<in> ?R"
    then obtain key oc where r: "resolve_obs_group ops srt key oc (timeline_group tdf key oc) = Inr (Some r)"
      by blast
    then have "2 \<le> length (timeline_group tdf key oc)"
      using resolve_obs_group_Some_iff[of ops srt key oc] by blast
    then have "timeline_group tdf key oc \<noteq> []" by auto
    then obtain x where x: "x \<in> set (timeline_group tdf key oc)"
      by (meson last_in_set)
    then have xin: "x \<in> set tdf" "?k3 x = key" "tl_obs_code x = oc"
      by (auto simp: timeline_group_def)
    have "(key, filter (\<lambda>r. ?k3 r = key) tdf) \<in> set (groupby ?k3 tdf)"
      unfolding set_groupby using xin by blast
    moreover have "(oc, timeline_group tdf key oc) \<in> set (groupby tl_obs_code (filter (\<lambda>r. ?k3 r = key) tdf))"
      unfolding set_groupby timeline_group_def using xin by force
    ultimately show "r \<in> set outs"
      unfolding outs(2) using r by blast
  qed
  from 1 2 show ?thesis by blast
qed

lemma sorts_by_days_set: "sorts_by_days srt \<Longrightarrow> set (srt g) = set g"
  unfolding sorts_by_days_def by (metis set_mset_mset)

lemma sorts_by_days_sorted: "sorts_by_days srt \<Longrightarrow> sorted (map tl_days_relative (filter P (srt g)))"
  unfolding sorts_by_days_def by (simp add: sorted_filter)

lemma sorted_map_last:
  fixes f :: "'a \<Rightarrow> int"
  assumes "sorted (map f xs)" "y \<in> set xs"
  shows "f y \<le> f (last xs)"
proof -
  from assms(2) obtain i where i: "i < length xs" "xs ! i = y" by (auto simp: in_set_conv_nth)
  then have ne: "xs \<noteq> []" by auto
  have "map f xs ! i \<le> map f xs ! (length xs - 1)"
    using assms(1) i by (intro sorted_nth_mono) auto
  then show ?thesis using i ne by (simp add: last_conv_nth)
qed

lemma sorted_map_first_tie:
  fixes f d :: "'a \<Rightarrow> int"
  assumes "sorted (map f xs)" "k < length xs" "\<forall>j < k. d (xs ! j) \<noteq> d (xs ! k)"
    "y \<in> set xs" "d y = d (xs ! k)"
  shows "f (xs ! k) \<le> f y"
proof -
  from assms(4) obtain i where i: "i < length xs" "xs ! i = y" by (auto simp: in_set_conv_nth)
  with assms(3,5) have "k \<le> i" by (metis not_le_imp_less)
  then have "map f xs ! k \<le> map f xs ! i"
    using assms(1) i by (intro sorted_nth_mono) auto
  then show ?thesis using i assms(2) by simp
qed

lemma stable_sort_values_sorts: "sorts_by_days stable_sort_values"
  by (simp add: sorts_by_days_def stable_sort_values_def)

subsection \<open>The outcome of a group\<close>

lemma resolve_obs_group_char:
  fixes g :: "'f timeline_record list"
  assumes srt: "sorts_by_days srt"
    and res: "resolve_obs_group ops srt (p, mc, md) oc g = Inr (Some r)"
  obtains pre post where
    "2 \<le> length g"
    "pre \<in> set g" "tl_days_relative pre \<le> 0"
    "\<forall>y \<in> set g. tl_days_relative y \<le> 0 \<longrightarrow> tl_days_relative y \<le> tl_days_relative pre"
    "post \<in> set g" "0 < tl_days_relative post"
    "\<forall>y \<in> set g. 0 < tl_days_relative y \<longrightarrow>
        \<bar>tl_days_relative post - 180\<bar> \<le> \<bar>tl_days_relative y - 180\<bar>"
    "\<forall>y \<in> set g. 0 < tl_days_relative y \<and>
        \<bar>tl_days_relative y - 180\<bar> = \<bar>tl_days_relative post - 180\<bar> \<longrightarrow>
        tl_days_relative post \<le> tl_days_relative y"
    "r = \<lparr>out_patient = p, out_med_code = mc, out_med_description = md,
           out_obs_code = oc, out_obs_description = tl_obs_description (hd g),
           out_pre_value = tl_value pre,
           out_post_value = tl_value post,
           out_change = py_sub ops (tl_value post) (tl_value pre),
           out_percent_change =
             (case tl_value pre of NaN \<Rightarrow> NaN
              | Num a \<Rightarrow> if fzero ops a then NaN
                  else (case py_sub ops (tl_value post) (tl_value pre) of
                          NaN \<Rightarrow> NaN
                        | Num c \<Rightarrow> py_mul ops (fdiv ops c a) (Num (hundred ops)))),
           out_pre_date = tl_obs_date pre,
           out_post_date = tl_obs_date post,
           out_days_between = tl_days_relative post,
           out_units = tl_units (hd g)\<rparr>"
proof -
  let ?pre_med = "filter (\<lambda>r. tl_days_relative r \<le> 0) (srt g)"
  let ?post_med = "filter (\<lambda>r. 0 < tl_days_relative r) (srt g)"
  let ?gap = "\<lambda>r :: 'f timeline_record. \<bar>tl_days_relative r - 180\<bar>"
  from res have c: "2 \<le> length g" "?pre_med \<noteq> []" "?post_med \<noteq> []"
    using resolve_obs_group_Some_iff[of ops srt "(p, mc, md)" oc g] by blast+
  obtain k where k: "k < length ?post_med"
    "\<forall>y \<in> set ?post_med. ?gap (?post_med ! k) \<le> ?gap y"
    "\<forall>j < k. ?gap (?post_med ! j) \<noteq> ?gap (?post_med ! k)"
    and eq: "resolve_obs_group ops srt (p, mc, md) oc g =
       Inr (Some \<lparr>out_patient = p, out_med_code = mc, out_med_description = md,
                  out_obs_code = oc, out_obs_description = tl_obs_description (hd g),
                  out_pre_value = tl_value (last ?pre_med),
                  out_post_value = tl_value (?post_med ! k),
                  out_change = py_sub ops (tl_value (?post_med ! k)) (tl_value (last ?pre_med)),
                  out_percent_change =
                    (case tl_value (last ?pre_med) of NaN \<Rightarrow> NaN
                     | Num a \<Rightarrow> if fzero ops a then NaN
                         else (case py_sub ops (tl_value (?post_med ! k)) (tl_value (last ?pre_med)) of
                                 NaN \<Rightarrow> NaN
                               | Num c \<Rightarrow> py_mul ops (fdiv ops c a) (Num (hundred ops)))),
                  out_pre_date = tl_obs_date (last ?pre_med),
                  out_post_date = tl_obs_date (?post_med ! k),
                  out_days_between = tl_days_relative (?post_med ! k),
                  out_units = tl_units (hd g)\<rparr>)"
    by (rule resolve_obs_group_emit[where g=g and srt=srt and ops=ops and p=p and mc=mc
          and md=md and oc=oc, OF c(1) c(2) c(3)])
  have set_srt: "set (srt g) = set g" using srt by (rule sorts_by_days_set)
  let ?pre = "last ?pre_med" and ?post = "?post_med ! k"
  have pre_in: "?pre \<in> set ?pre_med" using c(2) by (rule last_in_set)
  then have 1: "?pre \<in> set g" "tl_days_relative ?pre \<le> 0"
    using set_srt by auto
  have sorted_pre: "sorted (map tl_days_relative ?pre_med)"
    using srt by (rule sorts_by_days_sorted)
  have 2: "\<forall>y \<in> set g. tl_days_relative y \<le> 0 \<longrightarrow> tl_days_relative y \<le> tl_days_relative ?pre"
  proof (intro ballI impI)
    fix y assume "y \<in> set g" "tl_days_relative y \<le> 0"
    then have "y \<in> set ?pre_med" using set_srt by simp
    with sorted_pre show "tl_days_relative y \<le> tl_days_relative ?pre"
      by (rule sorted_map_last)
  qed
  have post_in: "?post \<in> set ?post_med" using k(1) by (rule nth_mem)
  then have 3: "?post \<in> set g" "0 < tl_days_relative ?post"
    using set_srt by auto
  have 4: "\<forall>y \<in> set g. 0 < tl_days_relative y \<longrightarrow> ?gap ?post \<le> ?gap y"
  proof (intro ballI impI)
    fix y assume "y \<in> set g" "0 < tl_days_relative y"
    then have "y \<in> set ?post_med" using set_srt by simp
    with k(2) show "?gap ?post \<le> ?gap y" by blast
  qed
  have sorted_post: "sorted (map tl_days_relative ?post_med)"
    using srt by (rule sorts_by_days_sorted)
  have 5: "\<forall>y \<in> set g. 0 < tl_days_relative y \<and> ?gap y = ?gap ?post \<longrightarrow>
        tl_days_relative ?post \<le> tl_days_relative y"
  proof (intro ballI impI)
    fix y assume y: "y \<in> set g" and "0 < tl_days_relative y \<and> ?gap y = ?gap ?post"
    then have yin: "y \<in> set ?post_med" and tie: "?gap y = ?gap ?post"
      using set_srt by simp_all
    from sorted_post k(1) k(3) yin tie
    show "tl_days_relative ?post \<le> tl_days_relative y"
      by (rule sorted_map_first_tie)
  qed
  from res eq have r: "r = \<lparr>out_patient = p, out_med_code = mc, out_med_description = md,
                  out_obs_code = oc, out_obs_description = tl_obs_description (hd g),
                  out_pre_value = tl_value ?pre,
                  out_post_value = tl_value ?post,
                  out_change = py_sub ops (tl_value ?post) (tl_value ?pre),
                  out_percent_change =
                    (case tl_value ?pre of NaN \<Rightarrow> NaN
                     | Num a \<Rightarrow> if fzero ops a then NaN
                         else (case py_sub ops (tl_value ?post) (tl_value ?pre) of
                                 NaN \<Rightarrow> NaN
                               | Num c \<Rightarrow> py_mul ops (fdiv ops c a) (Num (hundred ops)))),
                  out_pre_date = tl_obs_date ?pre,
                  out_post_date = tl_obs_date ?post,
                  out_days_between = tl_days_relative ?post,
                  out_units = tl_units (hd g)\<rparr>"
    by simp
  from c(1) 1 2 3 4 5 r show thesis by (rule that)
qed

lemma outcome_memberI:
  assumes "create_patient_medication_outcomes ops srt tdf = Inr outs"
    and "resolve_obs_group ops srt key oc (timeline_group tdf key oc) = Inr (Some r)"
  shows "r \<in> set outs"
proof -
  obtain outs' where a: "create_patient_medication_outcomes ops srt tdf = Inr outs'"
    and b: "set outs' = {r. \<exists>key oc.
        resolve_obs_group ops srt key oc (timeline_group tdf key oc) = Inr (Some r)}"
    using outcomes_set by blast
  from a assms(1) have "outs' = outs" by simp
  with b assms(2) show ?thesis by blast
qed

lemma outcome_member:
  assumes "create_patient_medication_outcomes ops srt tdf = Inr outs" "r \<in> set outs"
  obtains key oc where "outcome_key r = (key, oc)"
    "resolve_obs_group ops srt key oc (timeline_group tdf key oc) = Inr (Some r)"
proof -
  obtain outs' where a: "create_patient_medication_outcomes ops srt tdf = Inr outs'"
    and b: "set outs' = {r. \<exists>key oc.
        resolve_obs_group ops srt key oc (timeline_group tdf key oc) = Inr (Some r)}"
    using outcomes_set by blast
  from a assms(1) have "outs' = outs" by simp
  with b assms(2) obtain key oc where
    res: "resolve_obs_group ops srt key oc (timeline_group tdf key oc) = Inr (Some r)"
    by blast
  then have "outcome_key r = (key, oc)" by (rule resolve_obs_group_key)
  with res show thesis by (rule that[rotated])
qed

lemma outcome_group:
  assumes "create_patient_medication_outcomes ops srt tdf = Inr outs" "r \<in> set outs"
  shows "resolve_obs_group ops srt (fst (outcome_key r)) (snd (outcome_key r))
           (timeline_group tdf (fst (outcome_key r)) (snd (outcome_key r))) = Inr (Some r)"
proof -
  from assms obtain key oc where k: "outcome_key r = (key, oc)"
    and res: "resolve_obs_group ops srt key oc (timeline_group tdf key oc) = Inr (Some r)"
    by (rule outcome_member)
  show ?thesis unfolding k fst_conv snd_conv by (rule res)
qed

lemma pre_post_exist:
  assumes "sorts_by_days srt"
  shows "filter (\<lambda>r. tl_days_relative r \<le> 0) (srt g) \<noteq> [] \<longleftrightarrow> (\<exists>x \<in> set g. tl_days_relative x \<le> 0)"
    and "filter (\<lambda>r. 0 < tl_days_relative r) (srt g) \<noteq> [] \<longleftrightarrow> (\<exists>x \<in> set g. 0 < tl_days_relative x)"
  using sorts_by_days_set[OF assms, of g] by (auto simp: filter_empty_conv)

lemma outcome_emitted_iff:
  assumes srt: "sorts_by_days srt"
    and outs: "create_patient_medication_outcomes ops srt tdf = Inr outs"
  shows "(\<exists>r \<in> set outs. outcome_key r = (key, oc)) \<longleftrightarrow>
     2 \<le> length (timeline_group tdf key oc) \<and>
     (\<exists>x \<in> set (timeline_group tdf key oc). tl_days_relative x \<le> 0) \<and>
     (\<exists>x \<in> set (timeline_group tdf key oc). 0 < tl_days_relative x)"
proof -
  let ?g = "timeline_group tdf key oc"
  have "(\<exists>r \<in> set outs. outcome_key r = (key, oc)) \<longleftrightarrow>
        (\<exists>r. resolve_obs_group ops srt key oc ?g = Inr (Some r))"
  proof
    assume "\<exists>r \<in> set outs. outcome_key r = (key, oc)"
    then obtain r where r: "r \<in> set outs" "outcome_key r = (key, oc)" by blast
    from outcome_group[OF outs r(1)] r(2)
    show "\<exists>r. resolve_obs_group ops srt key oc ?g = Inr (Some r)" by auto
  next
    assume "\<exists>r. resolve_obs_group ops srt key oc ?g = Inr (Some r)"
    then obtain r where r: "resolve_obs_group ops srt key oc ?g = Inr (Some r)" by blast
    then have k: "outcome_key r = (key, oc)" by (rule resolve_obs_group_key)
    from outs r have "r \<in> set outs" by (rule outcome_memberI)
    with k show "\<exists>r \<in> set outs. outcome_key r = (key, oc)" by blast
  qed
  then show ?thesis
    unfolding resolve_obs_group_Some_iff pre_post_exist[OF srt] .
qed

lemma outcomes_total:
  "\<exists>outs. create_patient_medication_outcomes ops srt tdf = Inr outs"
  using outcomes_set[of ops srt tdf] by blast

lemma outcome_char:
  fixes tdf :: "'f timeline_record list"
  assumes srt: "sorts_by_days srt"
    and outs: "create_patient_medication_outcomes ops srt tdf = Inr outs"
    and r: "r \<in> set outs"
  obtains pre post where
    "2 \<le> length (group_of tdf r)"
    "pre \<in> set (group_of tdf r)" "tl_days_relative pre \<le> 0"
    "\<forall>y \<in> set (group_of tdf r). tl_days_relative y \<le> 0 \<longrightarrow>
        tl_days_relative y \<le> tl_days_relative pre"
    "post \<in> set (group_of tdf r)" "0 < tl_days_relative post"
    "\<forall>y \<in> set (group_of tdf r). 0 < tl_days_relative y \<longrightarrow>
        \<bar>tl_days_relative post - 180\<bar> \<le> \<bar>tl_days_relative y - 180\<bar>"
    "\<forall>y \<in> set (group_of tdf r). 0 < tl_days_relative y \<and>
        \<bar>tl_days_relative y - 180\<bar> = \<bar>tl_days_relative post - 180\<bar> \<longrightarrow>
        tl_days_relative post \<le> tl_days_relative y"
    "out_pre_value r = tl_value pre" "out_pre_date r = tl_obs_date pre"
    "out_post_value r = tl_value post" "out_post_date r = tl_obs_date post"
    "out_days_between r = tl_days_relative post"
proof -
  obtain p mc md where key: "fst (outcome_key r) = (p, mc, md)"
    by (cases "fst (outcome_key r)")
  have res: "resolve_obs_group ops srt (p, mc, md) (snd (outcome_key r)) (group_of tdf r) =
      Inr (Some r)"
    using outcome_group[OF outs r] unfolding group_of_def key .
  show thesis
  proof (rule resolve_obs_group_char[OF srt res])
    fix pre post
    assume a: "2 \<le> length (group_of tdf r)"
      "pre \<in> set (group_of tdf r)" "tl_days_relative pre \<le> 0"
      "\<forall>y \<in> set (group_of tdf r). tl_days_relative y \<le> 0 \<longrightarrow>
        tl_days_relative y \<le> tl_days_relative pre"
      "post \<in> set (group_of tdf r)" "0 < tl_days_relative post"
      "\<forall>y \<in> set (group_of tdf r). 0 < tl_days_relative y \<longrightarrow>
        \<bar>tl_days_relative post - 180\<bar> \<le> \<bar>tl_days_relative y - 180\<bar>"
      "\<forall>y \<in> set (group_of tdf r). 0 < tl_days_relative y \<and>
        \<bar>tl_days_relative y - 180\<bar> = \<bar>tl_days_relative post - 180\<bar> \<longrightarrow>
        tl_days_relative post \<le> tl_days_relative y"
    and req: "r = \<lparr>out_patient = p, out_med_code = mc, out_med_description = md,
           out_obs_code = snd (outcome_key r),
           out_obs_description = tl_obs_description (hd (group_of tdf r)),
           out_pre_value = tl_value pre,
           out_post_value = tl_value post,
           out_change = py_sub ops (tl_value post) (tl_value pre),
           out_percent_change =
             (case tl_value pre of NaN \<Rightarrow> NaN
              | Num a \<Rightarrow> if fzero ops a then NaN
                  else (case py_sub ops (tl_value post) (tl_value pre) of
                          NaN \<Rightarrow> NaN
                        | Num c \<Rightarrow> py_mul ops (fdiv ops c a) (Num (hundred ops)))),
           out_pre_date = tl_obs_date pre,
           out_post_date = tl_obs_date post,
           out_days_between = tl_days_relative post,
           out_units = tl_units (hd (group_of tdf r))\<rparr>"
    have f: "out_pre_value r = tl_value pre" "out_pre_date r = tl_obs_date pre"
      "out_post_value r = tl_value post" "out_post_date r = tl_obs_date post"
      "out_days_between r = tl_days_relative post"
      by (subst req, simp)+
    from a f show thesis by (rule that)
  qed
qed

lemma outcome_arith:
  fixes tdf :: "'f timeline_record list"
  assumes outs: "create_patient_medication_outcomes ops srt tdf = Inr outs" and r: "r \<in> set outs"
  shows "out_change r = py_sub ops (out_post_value r) (out_pre_value r)"
    and "out_percent_change r =
      (case out_pre_value r of NaN \<Rightarrow> NaN
       | Num a \<Rightarrow> if fzero ops a then NaN
           else (case out_change r of NaN \<Rightarrow> NaN
                 | Num c \<Rightarrow> py_mul ops (fdiv ops c a) (Num (hundred ops))))"
    and "out_obs_description r = tl_obs_description (hd (group_of tdf r))"
    and "out_units r = tl_units (hd (group_of tdf r))"
    and "2 \<le> length (group_of tdf r)"
proof -
  obtain p mc md where key: "fst (outcome_key r) = (p, mc, md)"
    by (cases "fst (outcome_key r)")
  let ?oc = "snd (outcome_key r)" and ?g = "group_of tdf r"
  have res: "resolve_obs_group ops srt (p, mc, md) ?oc ?g = Inr (Some r)"
    using outcome_group[OF outs r] unfolding group_of_def key .
  then have c: "2 \<le> length ?g" "filter (\<lambda>r. tl_days_relative r \<le> 0) (srt ?g) \<noteq> []"
    "filter (\<lambda>r. 0 < tl_days_relative r) (srt ?g) \<noteq> []"
    using resolve_obs_group_Some_iff[of ops srt "(p, mc, md)" ?oc ?g] by blast+
  obtain r' where r': "resolve_obs_group ops srt (p, mc, md) ?oc ?g = Inr (Some r')"
    and f: "out_change r' = py_sub ops (out_post_value r') (out_pre_value r')"
    "out_percent_change r' =
      (case out_pre_value r' of NaN \<Rightarrow> NaN
       | Num a \<Rightarrow> if fzero ops a then NaN
           else (case out_change r' of NaN \<Rightarrow> NaN
                 | Num c \<Rightarrow> py_mul ops (fdiv ops c a) (Num (hundred ops))))"
    "out_obs_description r' = tl_obs_description (hd ?g)"
    "out_units r' = tl_units (hd ?g)"
    by (rule resolve_obs_group_emit[where g="?g" and srt=srt and ops=ops and p=p and mc=mc
          and md=md and oc="?oc", OF c(1) c(2) c(3)]) (simp split: float64.splits)
  from res r' have rr: "r' = r" by simp
  show "out_change r = py_sub ops (out_post_value r) (out_pre_value r)"
    by (rule f(1)[unfolded rr])
  show "out_percent_change r =
      (case out_pre_value r of NaN \<Rightarrow> NaN
       | Num a \<Rightarrow> if fzero ops a then NaN
           else (case out_change r of NaN \<Rightarrow> NaN
                 | Num c \<Rightarrow> py_mul ops (fdiv ops c a) (Num (hundred ops))))"
    by (rule f(2)[unfolded rr])
  show "out_obs_description r = tl_obs_description (hd (group_of tdf r))"
    by (rule f(3)[unfolded rr])
  show "out_units r = tl_units (hd (group_of tdf r))"
    by (rule f(4)[unfolded rr])
  show "2 \<le> length (group_of tdf r)" by (rule c(1))
qed

lemma find_hd_filter: "filter P xs \<noteq> [] \<Longrightarrow> find P xs = Some (hd (filter P xs))"
  by (induction xs) auto

lemma timeline_group_filter:
  "timeline_group tdf key oc = filter (\<lambda>x. timeline_key x = (key, oc)) tdf"
  by (auto simp: timeline_group_def timeline_key_def intro: filter_cong)

lemma two_rows: "x \<in> set g \<Longrightarrow> y \<in> set g \<Longrightarrow> x \<noteq> y \<Longrightarrow> 2 \<le> length g"
proof (cases g)
  case Nil
  assume "x \<in> set g" with Nil show ?thesis by simp
next
  case (Cons a g')
  assume "x \<in> set g" "y \<in> set g" "x \<noteq> y"
  with Cons have "g' \<noteq> []" by auto
  with Cons show ?thesis by (cases g') simp_all
qed

lemma nan_change:
  fixes tdf :: "'f timeline_record list"
  assumes outs: "create_patient_medication_outcomes ops srt tdf = Inr outs" and r: "r \<in> set outs"
    and n: "out_pre_value r = NaN \<or> out_post_value r = NaN"
  shows "out_change r = NaN" "out_percent_change r = NaN"
proof -
  show c: "out_change r = NaN"
    using n outcome_arith(1)[OF outs r] by (auto simp: py_sub_def split: float64.splits)
  show "out_percent_change r = NaN"
    using c outcome_arith(2)[OF outs r] by (simp split: float64.splits)
qed

subsection \<open>The stages on a store\<close>













section \<open>The claims of the specification\<close>

text \<open>
  Claim C5. The Medication Period Normalizer returns one period per input record, at the
  same position, so that no row is dropped or merged; the stop date of a record without
  a stop date becomes the sentinel \<open>Timestamp_max\<close>, every other stop date and every other
  column is returned as it was.
\<close>

theorem medication_periods_one_per_record:
  "length (create_medication_periods medications_df) = length medications_df \<and>
   (\<forall>i < length medications_df.
      med_stop (create_medication_periods medications_df ! i) =
        (if med_stop (medications_df ! i) = None then Some Timestamp_max
         else med_stop (medications_df ! i)) \<and>
      create_medication_periods medications_df ! i =
        (medications_df ! i)\<lparr>med_stop :=
           (if med_stop (medications_df ! i) = None then Some Timestamp_max
            else med_stop (medications_df ! i))\<rparr>)"
  by (auto simp: create_medication_periods_map split: option.splits)

text \<open>Witness for C5: three records, two of them equal and without a stop date.\<close>

theorem medication_periods_one_per_record_witness:
  "(1 :: nat) < length [med ''P'' ''M'' 10 None, med ''P'' ''M'' 10 (Some (day 20)), med ''P'' ''M'' 10 None] \<and>
   length (create_medication_periods
      [med ''P'' ''M'' 10 None, med ''P'' ''M'' 10 (Some (day 20)), med ''P'' ''M'' 10 None]) = 3 \<and>
   create_medication_periods
      [med ''P'' ''M'' 10 None, med ''P'' ''M'' 10 (Some (day 20)), med ''P'' ''M'' 10 None] ! 1 =
      med ''P'' ''M'' 10 (Some (day 20)) \<and>
   med_stop (create_medication_periods
      [med ''P'' ''M'' 10 None, med ''P'' ''M'' 10 (Some (day 20)), med ''P'' ''M'' 10 None] ! 0) =
      Some Timestamp_max"
proof -
  let ?df = "[med ''P'' ''M'' 10 None, med ''P'' ''M'' 10 (Some (day 20)), med ''P'' ''M'' 10 None]"
  note t = medication_periods_one_per_record[of ?df]
  have h0: "(0 :: nat) < length ?df" and h1: "(1 :: nat) < length ?df" by simp_all
  have s0: "med_stop (?df ! 0) = None" and s1: "med_stop (?df ! 1) = Some (day 20)"
    by (simp_all add: med_def)
  from t have len: "length (create_medication_periods ?df) = 3" by simp
  from t h0 have "med_stop (create_medication_periods ?df ! 0) =
      (if med_stop (?df ! 0) = None then Some Timestamp_max else med_stop (?df ! 0))"
    by blast
  with s0 have a0: "med_stop (create_medication_periods ?df ! 0) = Some Timestamp_max"
    by simp
  from t h1 have "med_stop (create_medication_periods ?df ! 1) =
      (if med_stop (?df ! 1) = None then Some Timestamp_max else med_stop (?df ! 1)) \<and>
      create_medication_periods ?df ! 1 =
        (?df ! 1)\<lparr>med_stop :=
           (if med_stop (?df ! 1) = None then Some Timestamp_max else med_stop (?df ! 1))\<rparr>"
    by blast
  with s1 have a1: "create_medication_periods ?df ! 1 = med ''P'' ''M'' 10 (Some (day 20))"
    by (simp add: med_def)
  from h1 len a1 a0 show ?thesis by blast
qed



text \<open>
  Claim C2. For every outcome record, the pre value and pre date are those of a row of its
  group with \<open>days_relative \<le> 0\<close> whose \<open>days_relative\<close> is the largest among the rows of the
  group with \<open>days_relative \<le> 0\<close>; and a group without such a row has no outcome record.
  The resolver returns on every timeline.
\<close>

theorem pre_selection:
  fixes timeline_df :: "'f timeline_record list"
  assumes "sorts_by_days sort_values"
  shows "\<exists>outcomes_df.
    create_patient_medication_outcomes ops sort_values timeline_df = Inr outcomes_df \<and>
    (\<forall>r \<in> set outcomes_df. \<exists>pre \<in> set (group_of timeline_df r).
        tl_days_relative pre \<le> 0 \<and>
        (\<forall>y \<in> set (group_of timeline_df r).
            tl_days_relative y \<le> 0 \<longrightarrow> tl_days_relative y \<le> tl_days_relative pre) \<and>
        out_pre_value r = tl_value pre \<and> out_pre_date r = tl_obs_date pre) \<and>
    (\<forall>key oc. \<not> (\<exists>x \<in> set (timeline_group timeline_df key oc). tl_days_relative x \<le> 0) \<longrightarrow>
        \<not> (\<exists>r \<in> set outcomes_df. outcome_key r = (key, oc)))"
proof -
  obtain outs where outs: "create_patient_medication_outcomes ops sort_values timeline_df = Inr outs"
    using outcomes_total by blast
  have 1: "\<forall>r \<in> set outs. \<exists>pre \<in> set (group_of timeline_df r).
        tl_days_relative pre \<le> 0 \<and>
        (\<forall>y \<in> set (group_of timeline_df r).
            tl_days_relative y \<le> 0 \<longrightarrow> tl_days_relative y \<le> tl_days_relative pre) \<and>
        out_pre_value r = tl_value pre \<and> out_pre_date r = tl_obs_date pre"
  proof
    fix r assume r: "r \<in> set outs"
    show "\<exists>pre \<in> set (group_of timeline_df r).
        tl_days_relative pre \<le> 0 \<and>
        (\<forall>y \<in> set (group_of timeline_df r).
            tl_days_relative y \<le> 0 \<longrightarrow> tl_days_relative y \<le> tl_days_relative pre) \<and>
        out_pre_value r = tl_value pre \<and> out_pre_date r = tl_obs_date pre"
      by (rule outcome_char[OF assms outs r]) blast
  qed
  have 2: "\<forall>key oc. \<not> (\<exists>x \<in> set (timeline_group timeline_df key oc). tl_days_relative x \<le> 0) \<longrightarrow>
        \<not> (\<exists>r \<in> set outs. outcome_key r = (key, oc))"
    using outcome_emitted_iff[OF assms outs] by blast
  from outs 1 2 show ?thesis by blast
qed

text \<open>Witness for C2: rows at days -40, 200 and -3; the row at day -3 is the pre row.\<close>

theorem pre_selection_witness:
  "sorts_by_days (stable_sort_values :: rat timeline_record list \<Rightarrow> rat timeline_record list) \<and>
   create_patient_medication_outcomes exact_ops stable_sort_values tl_three_rows =
     Inr [outcome ''mg/dL'' (Num 9) (Num 7) (Num (- 2)) (Num (- (200 / 9))) (- 3) 200] \<and>
   group_of tl_three_rows
     (outcome ''mg/dL'' (Num 9) (Num 7) (Num (- 2)) (Num (- (200 / 9))) (- 3) 200) = tl_three_rows \<and>
   (\<exists>pre \<in> set tl_three_rows.
      tl_days_relative pre \<le> 0 \<and>
      (\<forall>y \<in> set tl_three_rows.
          tl_days_relative y \<le> 0 \<longrightarrow> tl_days_relative y \<le> tl_days_relative pre) \<and>
      Num 9 = tl_value pre \<and> day (- 3) = tl_obs_date pre)"
proof -
  let ?r = "outcome ''mg/dL'' (Num 9) (Num 7) (Num (- 2)) (Num (- (200 / 9))) (- 3) 200"
  have h: "sorts_by_days (stable_sort_values :: rat timeline_record list \<Rightarrow> rat timeline_record list)"
    by (rule stable_sort_values_sorts)
  have e: "create_patient_medication_outcomes exact_ops stable_sort_values tl_three_rows = Inr [?r]"
    by code_simp
  have g: "group_of tl_three_rows ?r = tl_three_rows"
    by code_simp
  have f: "out_pre_value ?r = Num 9" "out_pre_date ?r = day (- 3)"
    by (simp_all add: outcome_def)
  from pre_selection[OF h, of exact_ops tl_three_rows] obtain outs where
    o: "create_patient_medication_outcomes exact_ops stable_sort_values tl_three_rows = Inr outs"
    and p: "\<forall>r \<in> set outs. \<exists>pre \<in> set (group_of tl_three_rows r).
        tl_days_relative pre \<le> 0 \<and>
        (\<forall>y \<in> set (group_of tl_three_rows r).
            tl_days_relative y \<le> 0 \<longrightarrow> tl_days_relative y \<le> tl_days_relative pre) \<and>
        out_pre_value r = tl_value pre \<and> out_pre_date r = tl_obs_date pre"
    by blast
  from o e have "outs = [?r]" by simp
  then have "?r \<in> set outs" by simp
  with p have "\<exists>pre \<in> set (group_of tl_three_rows ?r).
        tl_days_relative pre \<le> 0 \<and>
        (\<forall>y \<in> set (group_of tl_three_rows ?r).
            tl_days_relative y \<le> 0 \<longrightarrow> tl_days_relative y \<le> tl_days_relative pre) \<and>
        out_pre_value ?r = tl_value pre \<and> out_pre_date ?r = tl_obs_date pre"
    by (rule bspec)
  then have q: "\<exists>pre \<in> set tl_three_rows.
      tl_days_relative pre \<le> 0 \<and>
      (\<forall>y \<in> set tl_three_rows.
          tl_days_relative y \<le> 0 \<longrightarrow> tl_days_relative y \<le> tl_days_relative pre) \<and>
      Num 9 = tl_value pre \<and> day (- 3) = tl_obs_date pre"
    unfolding g f .
  from h e g q show ?thesis by (intro conjI)
qed

text \<open>
  Claim C3. For every outcome record, the post value, post date and \<open>days_between\<close> are those
  of a row of its group with \<open>days_relative > 0\<close> that minimises \<open>\<bar>days_relative - 180\<bar>\<close> among
  the rows with \<open>days_relative > 0\<close>, and that has the least \<open>days_relative\<close> among the
  minimisers; when the offsets of the post candidates are 10, 175, 185 and 400, the row
  at 175 is selected. A group without a row with \<open>days_relative > 0\<close> has no outcome record.
\<close>

theorem post_selection:
  fixes timeline_df :: "'f timeline_record list"
  assumes "sorts_by_days sort_values"
  shows "\<exists>outcomes_df.
    create_patient_medication_outcomes ops sort_values timeline_df = Inr outcomes_df \<and>
    (\<forall>r \<in> set outcomes_df. \<exists>post \<in> set (group_of timeline_df r).
        0 < tl_days_relative post \<and>
        (\<forall>y \<in> set (group_of timeline_df r). 0 < tl_days_relative y \<longrightarrow>
            \<bar>tl_days_relative post - 180\<bar> \<le> \<bar>tl_days_relative y - 180\<bar>) \<and>
        (\<forall>y \<in> set (group_of timeline_df r). 0 < tl_days_relative y \<and>
            \<bar>tl_days_relative y - 180\<bar> = \<bar>tl_days_relative post - 180\<bar> \<longrightarrow>
            tl_days_relative post \<le> tl_days_relative y) \<and>
        out_post_value r = tl_value post \<and> out_post_date r = tl_obs_date post \<and>
        out_days_between r = tl_days_relative post) \<and>
    (\<forall>r \<in> set outcomes_df.
        tl_days_relative ` {x \<in> set (group_of timeline_df r). 0 < tl_days_relative x} =
          {10, 175, 185, 400} \<longrightarrow> out_days_between r = 175) \<and>
    (\<forall>key oc. \<not> (\<exists>x \<in> set (timeline_group timeline_df key oc). 0 < tl_days_relative x) \<longrightarrow>
        \<not> (\<exists>r \<in> set outcomes_df. outcome_key r = (key, oc)))"
proof -
  obtain outs where outs: "create_patient_medication_outcomes ops sort_values timeline_df = Inr outs"
    using outcomes_total by blast
  have 1: "\<forall>r \<in> set outs. \<exists>post \<in> set (group_of timeline_df r).
        0 < tl_days_relative post \<and>
        (\<forall>y \<in> set (group_of timeline_df r). 0 < tl_days_relative y \<longrightarrow>
            \<bar>tl_days_relative post - 180\<bar> \<le> \<bar>tl_days_relative y - 180\<bar>) \<and>
        (\<forall>y \<in> set (group_of timeline_df r). 0 < tl_days_relative y \<and>
            \<bar>tl_days_relative y - 180\<bar> = \<bar>tl_days_relative post - 180\<bar> \<longrightarrow>
            tl_days_relative post \<le> tl_days_relative y) \<and>
        out_post_value r = tl_value post \<and> out_post_date r = tl_obs_date post \<and>
        out_days_between r = tl_days_relative post"
  proof
    fix r assume r: "r \<in> set outs"
    show "\<exists>post \<in> set (group_of timeline_df r).
        0 < tl_days_relative post \<and>
        (\<forall>y \<in> set (group_of timeline_df r). 0 < tl_days_relative y \<longrightarrow>
            \<bar>tl_days_relative post - 180\<bar> \<le> \<bar>tl_days_relative y - 180\<bar>) \<and>
        (\<forall>y \<in> set (group_of timeline_df r). 0 < tl_days_relative y \<and>
            \<bar>tl_days_relative y - 180\<bar> = \<bar>tl_days_relative post - 180\<bar> \<longrightarrow>
            tl_days_relative post \<le> tl_days_relative y) \<and>
        out_post_value r = tl_value post \<and> out_post_date r = tl_obs_date post \<and>
        out_days_between r = tl_days_relative post"
      by (rule outcome_char[OF assms outs r]) blast
  qed
  have 2: "\<forall>r \<in> set outs.
        tl_days_relative ` {x \<in> set (group_of timeline_df r). 0 < tl_days_relative x} =
          {10, 175, 185, 400} \<longrightarrow> out_days_between r = 175"
  proof (intro ballI impI)
    fix r assume r: "r \<in> set outs"
      and cand: "tl_days_relative ` {x \<in> set (group_of timeline_df r). 0 < tl_days_relative x} =
          {10, 175, 185, 400}"
    show "out_days_between r = 175"
    proof (rule outcome_char[OF assms outs r])
      fix pre post
      assume post: "post \<in> set (group_of timeline_df r)" "0 < tl_days_relative post"
        and best: "\<forall>y \<in> set (group_of timeline_df r). 0 < tl_days_relative y \<longrightarrow>
            \<bar>tl_days_relative post - 180\<bar> \<le> \<bar>tl_days_relative y - 180\<bar>"
        and tie: "\<forall>y \<in> set (group_of timeline_df r). 0 < tl_days_relative y \<and>
            \<bar>tl_days_relative y - 180\<bar> = \<bar>tl_days_relative post - 180\<bar> \<longrightarrow>
            tl_days_relative post \<le> tl_days_relative y"
        and between: "out_days_between r = tl_days_relative post"
      have "tl_days_relative post \<in> {10, 175, 185, 400}"
        using post cand by blast
      moreover have "(175 :: int) \<in> {10, 175, 185, 400}" by simp
      then obtain y where y: "y \<in> set (group_of timeline_df r)" "0 < tl_days_relative y"
        "tl_days_relative y = 175"
        unfolding cand[symmetric] by auto
      from best y have b: "\<bar>tl_days_relative post - 180\<bar> \<le> 5" by fastforce
      from tie y have t: "\<bar>tl_days_relative post - 180\<bar> = 5 \<longrightarrow> tl_days_relative post \<le> 175"
        by fastforce
      ultimately have "tl_days_relative post = 175" using b t by auto
      with between show "out_days_between r = 175" by simp
    qed
  qed
  have 3: "\<forall>key oc. \<not> (\<exists>x \<in> set (timeline_group timeline_df key oc). 0 < tl_days_relative x) \<longrightarrow>
        \<not> (\<exists>r \<in> set outs. outcome_key r = (key, oc))"
    using outcome_emitted_iff[OF assms outs] by blast
  from outs 1 2 3 show ?thesis by blast
qed

text \<open>Witness for C3: post candidates at days 400, 185, 175 and 10, in that row order.\<close>

theorem post_selection_witness:
  "sorts_by_days (stable_sort_values :: rat timeline_record list \<Rightarrow> rat timeline_record list) \<and>
   create_patient_medication_outcomes exact_ops stable_sort_values tl_four_posts =
     Inr [outcome ''u'' (Num 3) (Num 4) (Num 1) (Num (100 / 3)) (- 5) 175] \<and>
   group_of tl_four_posts (outcome ''u'' (Num 3) (Num 4) (Num 1) (Num (100 / 3)) (- 5) 175) =
     tl_four_posts \<and>
   tl_days_relative ` {x \<in> set tl_four_posts. 0 < tl_days_relative x} = {10, 175, 185, 400} \<and>
   out_days_between (outcome ''u'' (Num 3) (Num 4) (Num 1) (Num (100 / 3)) (- 5) 175) = 175"
proof -
  let ?r = "outcome ''u'' (Num 3) (Num 4) (Num 1) (Num (100 / 3)) (- 5) 175"
  have h: "sorts_by_days (stable_sort_values :: rat timeline_record list \<Rightarrow> rat timeline_record list)"
    by (rule stable_sort_values_sorts)
  have e: "create_patient_medication_outcomes exact_ops stable_sort_values tl_four_posts = Inr [?r]"
    by code_simp
  have g: "group_of tl_four_posts ?r = tl_four_posts"
    by code_simp
  have c: "tl_days_relative ` {x \<in> set tl_four_posts. 0 < tl_days_relative x} = {10, 175, 185, 400}"
  proof -
    have "tl_days_relative ` {x \<in> set tl_four_posts. 0 < tl_days_relative x} =
        set (map tl_days_relative (filter (\<lambda>x. 0 < tl_days_relative x) tl_four_posts))"
      by (simp only: set_filter set_map)
    also have "\<dots> = {10, 175, 185, 400}"
      by (auto simp: tl_four_posts_def tlr_def)
    finally show ?thesis .
  qed
  from post_selection[OF h, of exact_ops tl_four_posts] obtain outs where
    o: "create_patient_medication_outcomes exact_ops stable_sort_values tl_four_posts = Inr outs"
    and p: "\<forall>r \<in> set outs.
        tl_days_relative ` {x \<in> set (group_of tl_four_posts r). 0 < tl_days_relative x} =
          {10, 175, 185, 400} \<longrightarrow> out_days_between r = 175"
    by blast
  from o e have "outs = [?r]" by simp
  then have "?r \<in> set outs" by simp
  with p have "tl_days_relative ` {x \<in> set (group_of tl_four_posts ?r). 0 < tl_days_relative x} =
          {10, 175, 185, 400} \<longrightarrow> out_days_between ?r = 175"
    by (rule bspec)
  with c have d: "out_days_between ?r = 175" unfolding g by (rule rev_mp)
  from h e g c d show ?thesis by (intro conjI)
qed

text \<open>
  Claim C4. The resolver returns a result, never an exception; for a group with fewer
  than two rows, or without a row with \<open>days_relative \<le> 0\<close>, or without a row with
  \<open>days_relative > 0\<close>, the loop body returns \<^verbatim>\<open>continue\<close> (no exception) and the output has no
  record with the keys of the group.
\<close>

theorem insufficient_groups_skipped:
  fixes timeline_df :: "'f timeline_record list"
  assumes "sorts_by_days sort_values"
  shows "\<exists>outcomes_df.
    create_patient_medication_outcomes ops sort_values timeline_df = Inr outcomes_df \<and>
    (\<forall>key oc.
        length (timeline_group timeline_df key oc) < 2 \<or>
        \<not> (\<exists>x \<in> set (timeline_group timeline_df key oc). tl_days_relative x \<le> 0) \<or>
        \<not> (\<exists>x \<in> set (timeline_group timeline_df key oc). 0 < tl_days_relative x) \<longrightarrow>
        resolve_obs_group ops sort_values key oc (timeline_group timeline_df key oc) = Inr None \<and>
        \<not> (\<exists>r \<in> set outcomes_df. outcome_key r = (key, oc)))"
proof -
  obtain outs where outs: "create_patient_medication_outcomes ops sort_values timeline_df = Inr outs"
    using outcomes_total by blast
  have "\<forall>key oc.
        length (timeline_group timeline_df key oc) < 2 \<or>
        \<not> (\<exists>x \<in> set (timeline_group timeline_df key oc). tl_days_relative x \<le> 0) \<or>
        \<not> (\<exists>x \<in> set (timeline_group timeline_df key oc). 0 < tl_days_relative x) \<longrightarrow>
        resolve_obs_group ops sort_values key oc (timeline_group timeline_df key oc) = Inr None \<and>
        \<not> (\<exists>r \<in> set outs. outcome_key r = (key, oc))"
  proof (intro allI impI conjI)
    fix key oc
    assume bad: "length (timeline_group timeline_df key oc) < 2 \<or>
        \<not> (\<exists>x \<in> set (timeline_group timeline_df key oc). tl_days_relative x \<le> 0) \<or>
        \<not> (\<exists>x \<in> set (timeline_group timeline_df key oc). 0 < tl_days_relative x)"
    then show "resolve_obs_group ops sort_values key oc (timeline_group timeline_df key oc) = Inr None"
      unfolding pre_post_exist[OF assms, symmetric]
      by (intro resolve_obs_group_skip) simp
    from bad show "\<not> (\<exists>r \<in> set outs. outcome_key r = (key, oc))"
      unfolding outcome_emitted_iff[OF assms outs] by auto
  qed
  with outs show ?thesis by blast
qed

text \<open>Witness for C4: a group of two rows, both after the medication start.\<close>

theorem insufficient_groups_skipped_witness:
  "sorts_by_days (stable_sort_values :: rat timeline_record list \<Rightarrow> rat timeline_record list) \<and>
   timeline_group tl_no_pre (''P'', ''M'', ''M'') ''X'' = tl_no_pre \<and>
   \<not> (\<exists>x \<in> set tl_no_pre. tl_days_relative x \<le> 0) \<and>
   resolve_obs_group exact_ops stable_sort_values (''P'', ''M'', ''M'') ''X'' tl_no_pre = Inr None \<and>
   create_patient_medication_outcomes exact_ops stable_sort_values tl_no_pre = Inr []"
proof -
  let ?key = "(''P'', ''M'', ''M'')"
  have h: "sorts_by_days (stable_sort_values :: rat timeline_record list \<Rightarrow> rat timeline_record list)"
    by (rule stable_sort_values_sorts)
  have g: "timeline_group tl_no_pre ?key ''X'' = tl_no_pre"
    by code_simp
  have n: "\<not> (\<exists>x \<in> set tl_no_pre. tl_days_relative x \<le> 0)"
    by (simp add: tl_no_pre_def tlr_def)
  have e: "create_patient_medication_outcomes exact_ops stable_sort_values tl_no_pre = Inr []"
    by code_simp
  from insufficient_groups_skipped[OF h, of exact_ops tl_no_pre] obtain outs where
    o: "create_patient_medication_outcomes exact_ops stable_sort_values tl_no_pre = Inr outs"
    and p: "\<forall>key oc.
        length (timeline_group tl_no_pre key oc) < 2 \<or>
        \<not> (\<exists>x \<in> set (timeline_group tl_no_pre key oc). tl_days_relative x \<le> 0) \<or>
        \<not> (\<exists>x \<in> set (timeline_group tl_no_pre key oc). 0 < tl_days_relative x) \<longrightarrow>
        resolve_obs_group exact_ops stable_sort_values key oc (timeline_group tl_no_pre key oc) = Inr None \<and>
        \<not> (\<exists>r \<in> set outs. outcome_key r = (key, oc))"
    by blast
  from n have "length (timeline_group tl_no_pre ?key ''X'') < 2 \<or>
        \<not> (\<exists>x \<in> set (timeline_group tl_no_pre ?key ''X''). tl_days_relative x \<le> 0) \<or>
        \<not> (\<exists>x \<in> set (timeline_group tl_no_pre ?key ''X''). 0 < tl_days_relative x)"
    unfolding g by (intro disjI2 disjI1)
  with p have "resolve_obs_group exact_ops stable_sort_values ?key ''X''
      (timeline_group tl_no_pre ?key ''X'') = Inr None"
    by blast
  then have s: "resolve_obs_group exact_ops stable_sort_values ?key ''X'' tl_no_pre = Inr None"
    unfolding g .
  from h g n s e show ?thesis by (intro conjI)
qed

text \<open>
  Claim C6. The resolver returns a result, never an exception. In every outcome record:
  with both values numbers, \<open>change\<close> is the float difference post minus pre; with a nonzero
  pre value the division of \<open>change\<close> by the pre value does not raise and \<open>percent_change\<close>
  is its quotient times 100; with either value NaN both \<open>change\<close> and \<open>percent_change\<close> are
  NaN; with a zero pre value \<open>percent_change\<close> is NaN.
\<close>

theorem change_and_percent_change:
  fixes timeline_df :: "'f timeline_record list"
  shows "\<exists>outcomes_df.
    create_patient_medication_outcomes ops sort_values timeline_df = Inr outcomes_df \<and>
    (\<forall>r \<in> set outcomes_df.
       (\<forall>a b. out_pre_value r = Num a \<and> out_post_value r = Num b \<longrightarrow>
              out_change r = fsub ops b a) \<and>
       (\<forall>a. out_pre_value r = Num a \<and> \<not> fzero ops a \<longrightarrow>
            (\<exists>q. py_truediv ops (out_change r) (out_pre_value r) = Inr q \<and>
                 out_percent_change r = py_mul ops q (Num (hundred ops)))) \<and>
       (out_pre_value r = NaN \<or> out_post_value r = NaN \<longrightarrow>
            out_change r = NaN \<and> out_percent_change r = NaN) \<and>
       (\<forall>a. out_pre_value r = Num a \<and> fzero ops a \<longrightarrow> out_percent_change r = NaN))"
proof -
  obtain outs where outs: "create_patient_medication_outcomes ops sort_values timeline_df = Inr outs"
    using outcomes_total by blast
  have "\<forall>r \<in> set outs.
       (\<forall>a b. out_pre_value r = Num a \<and> out_post_value r = Num b \<longrightarrow>
              out_change r = fsub ops b a) \<and>
       (\<forall>a. out_pre_value r = Num a \<and> \<not> fzero ops a \<longrightarrow>
            (\<exists>q. py_truediv ops (out_change r) (out_pre_value r) = Inr q \<and>
                 out_percent_change r = py_mul ops q (Num (hundred ops)))) \<and>
       (out_pre_value r = NaN \<or> out_post_value r = NaN \<longrightarrow>
            out_change r = NaN \<and> out_percent_change r = NaN) \<and>
       (\<forall>a. out_pre_value r = Num a \<and> fzero ops a \<longrightarrow> out_percent_change r = NaN)"
  proof
    fix r assume r: "r \<in> set outs"
    note ch = outcome_arith(1)[OF outs r] and pc = outcome_arith(2)[OF outs r]
    have 1: "\<forall>a b. out_pre_value r = Num a \<and> out_post_value r = Num b \<longrightarrow>
              out_change r = fsub ops b a"
      using ch by (simp add: py_sub_def)
    have 2: "\<forall>a. out_pre_value r = Num a \<and> \<not> fzero ops a \<longrightarrow>
            (\<exists>q. py_truediv ops (out_change r) (out_pre_value r) = Inr q \<and>
                 out_percent_change r = py_mul ops q (Num (hundred ops)))"
    proof (intro allI impI)
      fix a assume a: "out_pre_value r = Num a \<and> \<not> fzero ops a"
      show "\<exists>q. py_truediv ops (out_change r) (out_pre_value r) = Inr q \<and>
                 out_percent_change r = py_mul ops q (Num (hundred ops))"
      proof (cases "out_change r")
        case NaN
        with a pc show ?thesis
          by (simp add: py_truediv_def py_is_zero_def py_mul_def)
      next
        case (Num c)
        with a pc show ?thesis
          by (simp add: py_truediv_def py_is_zero_def)
      qed
    qed
    have 3: "out_pre_value r = NaN \<or> out_post_value r = NaN \<longrightarrow>
            out_change r = NaN \<and> out_percent_change r = NaN"
    proof
      assume n: "out_pre_value r = NaN \<or> out_post_value r = NaN"
      then have c: "out_change r = NaN"
        using ch by (auto simp: py_sub_def split: float64.splits)
      with pc have "out_percent_change r = NaN"
        by (simp split: float64.splits)
      with c show "out_change r = NaN \<and> out_percent_change r = NaN" by simp
    qed
    have 4: "\<forall>a. out_pre_value r = Num a \<and> fzero ops a \<longrightarrow> out_percent_change r = NaN"
      using pc by simp
    from 1 2 3 4 show "(\<forall>a b. out_pre_value r = Num a \<and> out_post_value r = Num b \<longrightarrow>
              out_change r = fsub ops b a) \<and>
       (\<forall>a. out_pre_value r = Num a \<and> \<not> fzero ops a \<longrightarrow>
            (\<exists>q. py_truediv ops (out_change r) (out_pre_value r) = Inr q \<and>
                 out_percent_change r = py_mul ops q (Num (hundred ops)))) \<and>
       (out_pre_value r = NaN \<or> out_post_value r = NaN \<longrightarrow>
            out_change r = NaN \<and> out_percent_change r = NaN) \<and>
       (\<forall>a. out_pre_value r = Num a \<and> fzero ops a \<longrightarrow> out_percent_change r = NaN)"
      by (intro conjI)
  qed
  with outs show ?thesis by blast
qed

text \<open>Witness for C6: a zero pre value, a nonzero pre value, and a NaN post value.\<close>

theorem change_and_percent_change_witness:
  "create_patient_medication_outcomes exact_ops stable_sort_values tl_zero_pre =
     Inr [outcome ''u'' (Num 0) (Num 7) (Num 7) NaN (- 3) 200] \<and>
   fzero exact_ops 0 \<and>
   out_change (outcome ''u'' (Num 0) (Num 7) (Num 7) NaN (- 3) 200) = fsub exact_ops 7 0 \<and>
   out_percent_change (outcome ''u'' (Num 0) (Num 7) (Num 7) NaN (- 3) 200) = NaN \<and>
   create_patient_medication_outcomes exact_ops stable_sort_values tl_three_rows =
     Inr [outcome ''mg/dL'' (Num 9) (Num 7) (Num (- 2)) (Num (- (200 / 9))) (- 3) 200] \<and>
   \<not> fzero exact_ops 9 \<and>
   (\<exists>q. py_truediv exact_ops (Num (- 2)) (Num 9) = Inr q \<and>
        Num (- (200 / 9)) = py_mul exact_ops q (Num (hundred exact_ops))) \<and>
   create_patient_medication_outcomes exact_ops stable_sort_values tl_nan_post =
     Inr [outcome ''u'' (Num 5) NaN NaN NaN (- 3) 170] \<and>
   out_change (outcome ''u'' (Num 5) NaN NaN NaN (- 3) 170) = NaN \<and>
   out_percent_change (outcome ''u'' (Num 5) NaN NaN NaN (- 3) 170) = NaN"
proof -
  let ?z = "outcome ''u'' (Num 0) (Num 7) (Num 7) NaN (- 3) 200"
  let ?t = "outcome ''mg/dL'' (Num 9) (Num 7) (Num (- 2)) (Num (- (200 / 9))) (- 3) 200"
  let ?n = "outcome ''u'' (Num 5) NaN NaN NaN (- 3) 170"
  have ez: "create_patient_medication_outcomes exact_ops stable_sort_values tl_zero_pre = Inr [?z]"
    by code_simp
  have et: "create_patient_medication_outcomes exact_ops stable_sort_values tl_three_rows = Inr [?t]"
    by code_simp
  have en: "create_patient_medication_outcomes exact_ops stable_sort_values tl_nan_post = Inr [?n]"
    by code_simp
  have z0: "fzero exact_ops 0" and z9: "\<not> fzero exact_ops 9"
    by (simp_all add: exact_ops_def)
  have fz: "out_pre_value ?z = Num 0" "out_post_value ?z = Num 7"
    and ft: "out_pre_value ?t = Num 9" "out_change ?t = Num (- 2)"
      "out_percent_change ?t = Num (- (200 / 9))"
    and fn: "out_post_value ?n = NaN"
    by (simp_all add: outcome_def)
  note cp = change_and_percent_change[of exact_ops stable_sort_values]
  from cp[of tl_zero_pre] ez have
    "(\<forall>a b. out_pre_value ?z = Num a \<and> out_post_value ?z = Num b \<longrightarrow>
              out_change ?z = fsub exact_ops b a) \<and>
     (\<forall>a. out_pre_value ?z = Num a \<and> fzero exact_ops a \<longrightarrow> out_percent_change ?z = NaN)"
    by auto
  with fz z0 have 1: "out_change ?z = fsub exact_ops 7 0" "out_percent_change ?z = NaN"
    by blast+
  from cp[of tl_three_rows] et have
    "\<forall>a. out_pre_value ?t = Num a \<and> \<not> fzero exact_ops a \<longrightarrow>
        (\<exists>q. py_truediv exact_ops (out_change ?t) (out_pre_value ?t) = Inr q \<and>
             out_percent_change ?t = py_mul exact_ops q (Num (hundred exact_ops)))"
    by auto
  with ft(1) z9 have "\<exists>q. py_truediv exact_ops (out_change ?t) (out_pre_value ?t) = Inr q \<and>
             out_percent_change ?t = py_mul exact_ops q (Num (hundred exact_ops))"
    by blast
  then have 2: "\<exists>q. py_truediv exact_ops (Num (- 2)) (Num 9) = Inr q \<and>
        Num (- (200 / 9)) = py_mul exact_ops q (Num (hundred exact_ops))"
    unfolding ft .
  from cp[of tl_nan_post] en have
    "out_pre_value ?n = NaN \<or> out_post_value ?n = NaN \<longrightarrow>
        out_change ?n = NaN \<and> out_percent_change ?n = NaN"
    by auto
  with fn have 3: "out_change ?n = NaN" "out_percent_change ?n = NaN" by blast+
  from ez z0 1 et z9 2 en 3 show ?thesis by (intro conjI)
qed






text \<open>
  Claim C9. Whether a group has an outcome record depends on the number of its rows and
  on their \<open>days_relative\<close> only, never on their values. A row with value NaN that is the
  only latest row at or before the start, in a group with a row after the start, is the
  pre row: the group has an outcome record with the date of that row, pre value NaN,
  and \<open>change\<close> and \<open>percent_change\<close> NaN. The same holds for a row with value NaN that is
  strictly closest to day 180 among the rows after the start.
\<close>

theorem nan_rows_take_part_in_selection:
  fixes timeline_df :: "'f timeline_record list"
  assumes "sorts_by_days sort_values"
  shows "\<exists>outcomes_df.
    create_patient_medication_outcomes ops sort_values timeline_df = Inr outcomes_df \<and>
    (\<forall>key oc. (\<exists>r \<in> set outcomes_df. outcome_key r = (key, oc)) \<longleftrightarrow>
        2 \<le> length (timeline_group timeline_df key oc) \<and>
        (\<exists>x \<in> set (timeline_group timeline_df key oc). tl_days_relative x \<le> 0) \<and>
        (\<exists>x \<in> set (timeline_group timeline_df key oc). 0 < tl_days_relative x)) \<and>
    (\<forall>key oc x.
        x \<in> set (timeline_group timeline_df key oc) \<and> tl_value x = NaN \<and>
        tl_days_relative x \<le> 0 \<and>
        (\<forall>y \<in> set (timeline_group timeline_df key oc).
            tl_days_relative y \<le> 0 \<and> y \<noteq> x \<longrightarrow> tl_days_relative y < tl_days_relative x) \<and>
        (\<exists>y \<in> set (timeline_group timeline_df key oc). 0 < tl_days_relative y) \<longrightarrow>
        (\<exists>r \<in> set outcomes_df. outcome_key r = (key, oc) \<and>
            out_pre_date r = tl_obs_date x \<and> out_pre_value r = NaN \<and>
            out_change r = NaN \<and> out_percent_change r = NaN)) \<and>
    (\<forall>key oc x.
        x \<in> set (timeline_group timeline_df key oc) \<and> tl_value x = NaN \<and>
        0 < tl_days_relative x \<and>
        (\<forall>y \<in> set (timeline_group timeline_df key oc). 0 < tl_days_relative y \<and> y \<noteq> x \<longrightarrow>
            \<bar>tl_days_relative x - 180\<bar> < \<bar>tl_days_relative y - 180\<bar>) \<and>
        (\<exists>y \<in> set (timeline_group timeline_df key oc). tl_days_relative y \<le> 0) \<longrightarrow>
        (\<exists>r \<in> set outcomes_df. outcome_key r = (key, oc) \<and>
            out_post_date r = tl_obs_date x \<and> out_post_value r = NaN \<and>
            out_change r = NaN \<and> out_percent_change r = NaN))"
proof -
  obtain outs where outs: "create_patient_medication_outcomes ops sort_values timeline_df = Inr outs"
    using outcomes_total by blast
  note iff = outcome_emitted_iff[OF assms outs]
  have 1: "\<forall>key oc. (\<exists>r \<in> set outs. outcome_key r = (key, oc)) \<longleftrightarrow>
        2 \<le> length (timeline_group timeline_df key oc) \<and>
        (\<exists>x \<in> set (timeline_group timeline_df key oc). tl_days_relative x \<le> 0) \<and>
        (\<exists>x \<in> set (timeline_group timeline_df key oc). 0 < tl_days_relative x)"
    using iff by blast
  have 2: "\<forall>key oc x.
        x \<in> set (timeline_group timeline_df key oc) \<and> tl_value x = NaN \<and>
        tl_days_relative x \<le> 0 \<and>
        (\<forall>y \<in> set (timeline_group timeline_df key oc).
            tl_days_relative y \<le> 0 \<and> y \<noteq> x \<longrightarrow> tl_days_relative y < tl_days_relative x) \<and>
        (\<exists>y \<in> set (timeline_group timeline_df key oc). 0 < tl_days_relative y) \<longrightarrow>
        (\<exists>r \<in> set outs. outcome_key r = (key, oc) \<and>
            out_pre_date r = tl_obs_date x \<and> out_pre_value r = NaN \<and>
            out_change r = NaN \<and> out_percent_change r = NaN)"
  proof (intro allI impI)
    fix key oc x
    let ?g = "timeline_group timeline_df key oc"
    assume a: "x \<in> set ?g \<and> tl_value x = NaN \<and> tl_days_relative x \<le> 0 \<and>
        (\<forall>y \<in> set ?g. tl_days_relative y \<le> 0 \<and> y \<noteq> x \<longrightarrow> tl_days_relative y < tl_days_relative x) \<and>
        (\<exists>y \<in> set ?g. 0 < tl_days_relative y)"
    then obtain y where y: "y \<in> set ?g" "0 < tl_days_relative y" by blast
    with a have "x \<noteq> y" by auto
    with a y have "2 \<le> length ?g" by (intro two_rows[of x ?g y]) auto
    with a y obtain r where r: "r \<in> set outs" "outcome_key r = (key, oc)"
      using iff[of key oc] by blast
    then have g: "group_of timeline_df r = ?g" by (simp add: group_of_def)
    have "out_pre_date r = tl_obs_date x \<and> out_pre_value r = NaN"
    proof (rule outcome_char[OF assms outs r(1)])
      fix pre post
      assume pre: "pre \<in> set (group_of timeline_df r)" "tl_days_relative pre \<le> 0"
        "\<forall>y \<in> set (group_of timeline_df r). tl_days_relative y \<le> 0 \<longrightarrow>
            tl_days_relative y \<le> tl_days_relative pre"
        and f: "out_pre_value r = tl_value pre" "out_pre_date r = tl_obs_date pre"
      have "tl_days_relative x \<le> tl_days_relative pre" using pre(3) a g by auto
      moreover have "pre \<noteq> x \<longrightarrow> tl_days_relative pre < tl_days_relative x"
        using pre(1,2) a g by auto
      ultimately have "pre = x" by auto
      with f a show "out_pre_date r = tl_obs_date x \<and> out_pre_value r = NaN" by simp
    qed
    moreover from this have "out_change r = NaN" "out_percent_change r = NaN"
      using nan_change[OF outs r(1)] by blast+
    ultimately show "\<exists>r \<in> set outs. outcome_key r = (key, oc) \<and>
            out_pre_date r = tl_obs_date x \<and> out_pre_value r = NaN \<and>
            out_change r = NaN \<and> out_percent_change r = NaN"
      using r by blast
  qed
  have 3: "\<forall>key oc x.
        x \<in> set (timeline_group timeline_df key oc) \<and> tl_value x = NaN \<and>
        0 < tl_days_relative x \<and>
        (\<forall>y \<in> set (timeline_group timeline_df key oc). 0 < tl_days_relative y \<and> y \<noteq> x \<longrightarrow>
            \<bar>tl_days_relative x - 180\<bar> < \<bar>tl_days_relative y - 180\<bar>) \<and>
        (\<exists>y \<in> set (timeline_group timeline_df key oc). tl_days_relative y \<le> 0) \<longrightarrow>
        (\<exists>r \<in> set outs. outcome_key r = (key, oc) \<and>
            out_post_date r = tl_obs_date x \<and> out_post_value r = NaN \<and>
            out_change r = NaN \<and> out_percent_change r = NaN)"
  proof (intro allI impI)
    fix key oc x
    let ?g = "timeline_group timeline_df key oc"
    assume a: "x \<in> set ?g \<and> tl_value x = NaN \<and> 0 < tl_days_relative x \<and>
        (\<forall>y \<in> set ?g. 0 < tl_days_relative y \<and> y \<noteq> x \<longrightarrow>
            \<bar>tl_days_relative x - 180\<bar> < \<bar>tl_days_relative y - 180\<bar>) \<and>
        (\<exists>y \<in> set ?g. tl_days_relative y \<le> 0)"
    then obtain y where y: "y \<in> set ?g" "tl_days_relative y \<le> 0" by blast
    with a have "x \<noteq> y" by auto
    with a y have "2 \<le> length ?g" by (intro two_rows[of x ?g y]) auto
    with a y obtain r where r: "r \<in> set outs" "outcome_key r = (key, oc)"
      using iff[of key oc] by blast
    then have g: "group_of timeline_df r = ?g" by (simp add: group_of_def)
    have "out_post_date r = tl_obs_date x \<and> out_post_value r = NaN"
    proof (rule outcome_char[OF assms outs r(1)])
      fix pre post
      assume post: "post \<in> set (group_of timeline_df r)" "0 < tl_days_relative post"
        "\<forall>y \<in> set (group_of timeline_df r). 0 < tl_days_relative y \<longrightarrow>
            \<bar>tl_days_relative post - 180\<bar> \<le> \<bar>tl_days_relative y - 180\<bar>"
        and f: "out_post_value r = tl_value post" "out_post_date r = tl_obs_date post"
      have "\<bar>tl_days_relative post - 180\<bar> \<le> \<bar>tl_days_relative x - 180\<bar>"
        using post(3) a g by auto
      moreover have "post \<noteq> x \<longrightarrow> \<bar>tl_days_relative x - 180\<bar> < \<bar>tl_days_relative post - 180\<bar>"
        using post(1,2) a g by auto
      ultimately have "post = x" by auto
      with f a show "out_post_date r = tl_obs_date x \<and> out_post_value r = NaN" by simp
    qed
    moreover from this have "out_change r = NaN" "out_percent_change r = NaN"
      using nan_change[OF outs r(1)] by blast+
    ultimately show "\<exists>r \<in> set outs. outcome_key r = (key, oc) \<and>
            out_post_date r = tl_obs_date x \<and> out_post_value r = NaN \<and>
            out_change r = NaN \<and> out_percent_change r = NaN"
      using r by blast
  qed
  from outs 1 2 3 show ?thesis by blast
qed

text \<open>
  Witness for C9: a NaN row at day -3 is selected although the row at day -10 has a number;
  a group of two rows, one of them NaN, has an outcome record.
\<close>

theorem nan_rows_take_part_in_selection_witness:
  "sorts_by_days (stable_sort_values :: rat timeline_record list \<Rightarrow> rat timeline_record list) \<and>
   timeline_group tl_nan_pre (''P'', ''M'', ''M'') ''X'' = tl_nan_pre \<and>
   tlr (- 3) NaN ''u'' \<in> set tl_nan_pre \<and>
   create_patient_medication_outcomes exact_ops stable_sort_values tl_nan_pre =
     Inr [outcome ''u'' NaN (Num 7) NaN NaN (- 3) 200] \<and>
   (\<exists>r \<in> set [outcome ''u'' NaN (Num 7) NaN NaN (- 3) 200].
      outcome_key r = ((''P'', ''M'', ''M''), ''X'') \<and>
      out_pre_date r = tl_obs_date (tlr (- 3) NaN ''u'') \<and> out_pre_value r = NaN \<and>
      out_change r = NaN \<and> out_percent_change r = NaN) \<and>
   timeline_group tl_nan_post (''P'', ''M'', ''M'') ''X'' = tl_nan_post \<and>
   length tl_nan_post = 2 \<and>
   tlr 170 NaN ''u'' \<in> set tl_nan_post \<and>
   create_patient_medication_outcomes exact_ops stable_sort_values tl_nan_post =
     Inr [outcome ''u'' (Num 5) NaN NaN NaN (- 3) 170] \<and>
   (\<exists>r \<in> set [outcome ''u'' (Num 5) NaN NaN NaN (- 3) 170].
      outcome_key r = ((''P'', ''M'', ''M''), ''X'') \<and>
      out_post_date r = tl_obs_date (tlr 170 NaN ''u'') \<and> out_post_value r = NaN \<and>
      out_change r = NaN \<and> out_percent_change r = NaN)"
proof -
  let ?key = "(''P'', ''M'', ''M'')"
  let ?x = "tlr (- 3) NaN ''u'' :: rat timeline_record"
  let ?y = "tlr 170 NaN ''u'' :: rat timeline_record"
  have h: "sorts_by_days (stable_sort_values :: rat timeline_record list \<Rightarrow> rat timeline_record list)"
    by (rule stable_sort_values_sorts)
  have g1: "timeline_group tl_nan_pre ?key ''X'' = tl_nan_pre"
    and g2: "timeline_group tl_nan_post ?key ''X'' = tl_nan_post"
    by code_simp+
  have e1: "create_patient_medication_outcomes exact_ops stable_sort_values tl_nan_pre =
     Inr [outcome ''u'' NaN (Num 7) NaN NaN (- 3) 200]"
    and e2: "create_patient_medication_outcomes exact_ops stable_sort_values tl_nan_post =
     Inr [outcome ''u'' (Num 5) NaN NaN NaN (- 3) 170]"
    by code_simp+
  have m1: "?x \<in> set tl_nan_pre" and m2: "?y \<in> set tl_nan_post" and l2: "length tl_nan_post = 2"
    by (simp_all add: tl_nan_pre_def tl_nan_post_def)
  have a1: "?x \<in> set (timeline_group tl_nan_pre ?key ''X'') \<and> tl_value ?x = NaN \<and>
        tl_days_relative ?x \<le> 0 \<and>
        (\<forall>y \<in> set (timeline_group tl_nan_pre ?key ''X'').
            tl_days_relative y \<le> 0 \<and> y \<noteq> ?x \<longrightarrow> tl_days_relative y < tl_days_relative ?x) \<and>
        (\<exists>y \<in> set (timeline_group tl_nan_pre ?key ''X''). 0 < tl_days_relative y)"
    unfolding g1 by (simp add: tl_nan_pre_def tlr_def)
  have a2: "?y \<in> set (timeline_group tl_nan_post ?key ''X'') \<and> tl_value ?y = NaN \<and>
        0 < tl_days_relative ?y \<and>
        (\<forall>y \<in> set (timeline_group tl_nan_post ?key ''X''). 0 < tl_days_relative y \<and> y \<noteq> ?y \<longrightarrow>
            \<bar>tl_days_relative ?y - 180\<bar> < \<bar>tl_days_relative y - 180\<bar>) \<and>
        (\<exists>y \<in> set (timeline_group tl_nan_post ?key ''X''). tl_days_relative y \<le> 0)"
    unfolding g2 by (simp add: tl_nan_post_def tlr_def)
  from nan_rows_take_part_in_selection[OF h, of exact_ops tl_nan_pre] obtain outs1 where
    o1: "create_patient_medication_outcomes exact_ops stable_sort_values tl_nan_pre = Inr outs1"
    and p1: "\<forall>key oc x.
        x \<in> set (timeline_group tl_nan_pre key oc) \<and> tl_value x = NaN \<and>
        tl_days_relative x \<le> 0 \<and>
        (\<forall>y \<in> set (timeline_group tl_nan_pre key oc).
            tl_days_relative y \<le> 0 \<and> y \<noteq> x \<longrightarrow> tl_days_relative y < tl_days_relative x) \<and>
        (\<exists>y \<in> set (timeline_group tl_nan_pre key oc). 0 < tl_days_relative y) \<longrightarrow>
        (\<exists>r \<in> set outs1. outcome_key r = (key, oc) \<and>
            out_pre_date r = tl_obs_date x \<and> out_pre_value r = NaN \<and>
            out_change r = NaN \<and> out_percent_change r = NaN)"
    by blast
  from o1 e1 have s1: "outs1 = [outcome ''u'' NaN (Num 7) NaN NaN (- 3) 200]" by simp
  from p1 a1 have "\<exists>r \<in> set outs1. outcome_key r = (?key, ''X'') \<and>
            out_pre_date r = tl_obs_date ?x \<and> out_pre_value r = NaN \<and>
            out_change r = NaN \<and> out_percent_change r = NaN"
    by blast
  then have c1: "\<exists>r \<in> set [outcome ''u'' NaN (Num 7) NaN NaN (- 3) 200].
      outcome_key r = (?key, ''X'') \<and>
      out_pre_date r = tl_obs_date ?x \<and> out_pre_value r = NaN \<and>
      out_change r = NaN \<and> out_percent_change r = NaN"
    unfolding s1 .
  from nan_rows_take_part_in_selection[OF h, of exact_ops tl_nan_post] obtain outs2 where
    o2: "create_patient_medication_outcomes exact_ops stable_sort_values tl_nan_post = Inr outs2"
    and p2: "\<forall>key oc x.
        x \<in> set (timeline_group tl_nan_post key oc) \<and> tl_value x = NaN \<and>
        0 < tl_days_relative x \<and>
        (\<forall>y \<in> set (timeline_group tl_nan_post key oc). 0 < tl_days_relative y \<and> y \<noteq> x \<longrightarrow>
            \<bar>tl_days_relative x - 180\<bar> < \<bar>tl_days_relative y - 180\<bar>) \<and>
        (\<exists>y \<in> set (timeline_group tl_nan_post key oc). tl_days_relative y \<le> 0) \<longrightarrow>
        (\<exists>r \<in> set outs2. outcome_key r = (key, oc) \<and>
            out_post_date r = tl_obs_date x \<and> out_post_value r = NaN \<and>
            out_change r = NaN \<and> out_percent_change r = NaN)"
    by blast
  from o2 e2 have s2: "outs2 = [outcome ''u'' (Num 5) NaN NaN NaN (- 3) 170]" by simp
  from p2 a2 have "\<exists>r \<in> set outs2. outcome_key r = (?key, ''X'') \<and>
            out_post_date r = tl_obs_date ?y \<and> out_post_value r = NaN \<and>
            out_change r = NaN \<and> out_percent_change r = NaN"
    by blast
  then have c2: "\<exists>r \<in> set [outcome ''u'' (Num 5) NaN NaN NaN (- 3) 170].
      outcome_key r = (?key, ''X'') \<and>
      out_post_date r = tl_obs_date ?y \<and> out_post_value r = NaN \<and>
      out_change r = NaN \<and> out_percent_change r = NaN"
    unfolding s2 .
  from h g1 m1 e1 c1 g2 l2 m2 e2 c2 show ?thesis by (intro conjI)
qed

text \<open>
  Claim C10. In every outcome record, the metric description and the unit are those of
  the first row of the timeline, in its row order, that has the keys of the record.
\<close>

theorem description_and_units_from_first_row:
  fixes timeline_df :: "'f timeline_record list"
  shows "\<exists>outcomes_df.
    create_patient_medication_outcomes ops sort_values timeline_df = Inr outcomes_df \<and>
    (\<forall>r \<in> set outcomes_df. \<exists>first.
        find (\<lambda>x. timeline_key x = outcome_key r) timeline_df = Some first \<and>
        out_obs_description r = tl_obs_description first \<and>
        out_units r = tl_units first)"
proof -
  obtain outs where outs: "create_patient_medication_outcomes ops sort_values timeline_df = Inr outs"
    using outcomes_total by blast
  have "\<forall>r \<in> set outs. \<exists>first.
        find (\<lambda>x. timeline_key x = outcome_key r) timeline_df = Some first \<and>
        out_obs_description r = tl_obs_description first \<and>
        out_units r = tl_units first"
  proof
    fix r assume r: "r \<in> set outs"
    have g: "group_of timeline_df r = filter (\<lambda>x. timeline_key x = outcome_key r) timeline_df"
      by (simp add: group_of_def timeline_group_filter)
    from outcome_arith(5)[OF outs r] have "group_of timeline_df r \<noteq> []" by auto
    then have "find (\<lambda>x. timeline_key x = outcome_key r) timeline_df =
        Some (hd (group_of timeline_df r))"
      unfolding g by (rule find_hd_filter)
    with outcome_arith(3,4)[OF outs r]
    show "\<exists>first. find (\<lambda>x. timeline_key x = outcome_key r) timeline_df = Some first \<and>
        out_obs_description r = tl_obs_description first \<and>
        out_units r = tl_units first"
      by blast
  qed
  with outs show ?thesis by blast
qed

text \<open>
  Witness for C10: the first row of the group is at day -40 with unit mg/dL; the pre row
  (day -3) has unit \<^verbatim>\<open>%\<close> and the post row (day 200) has unit mmol/L, the outcome has mg/dL.
\<close>

theorem description_and_units_from_first_row_witness:
  "create_patient_medication_outcomes exact_ops stable_sort_values tl_three_rows =
     Inr [outcome ''mg/dL'' (Num 9) (Num 7) (Num (- 2)) (Num (- (200 / 9))) (- 3) 200] \<and>
   find (\<lambda>x. timeline_key x =
          outcome_key (outcome ''mg/dL'' (Num 9) (Num 7) (Num (- 2)) (Num (- (200 / 9))) (- 3) 200))
     tl_three_rows = Some (tlr (- 40) (Num 8) ''mg/dL'') \<and>
   out_units (outcome ''mg/dL'' (Num 9) (Num 7) (Num (- 2)) (Num (- (200 / 9))) (- 3) 200) =
     tl_units (tlr (- 40) (Num 8) ''mg/dL'') \<and>
   out_obs_description (outcome ''mg/dL'' (Num 9) (Num 7) (Num (- 2)) (Num (- (200 / 9))) (- 3) 200) =
     tl_obs_description (tlr (- 40) (Num 8) ''mg/dL'') \<and>
   out_pre_date (outcome ''mg/dL'' (Num 9) (Num 7) (Num (- 2)) (Num (- (200 / 9))) (- 3) 200) =
     tl_obs_date (tlr (- 3) (Num 9) ''%'') \<and>
   out_post_date (outcome ''mg/dL'' (Num 9) (Num 7) (Num (- 2)) (Num (- (200 / 9))) (- 3) 200) =
     tl_obs_date (tlr 200 (Num 7) ''mmol/L'') \<and>
   tl_units (tlr (- 40) (Num 8) ''mg/dL'') \<noteq> tl_units (tlr (- 3) (Num 9) ''%'') \<and>
   tl_units (tlr (- 40) (Num 8) ''mg/dL'') \<noteq> tl_units (tlr 200 (Num 7) ''mmol/L'')"
proof -
  let ?r = "outcome ''mg/dL'' (Num 9) (Num 7) (Num (- 2)) (Num (- (200 / 9))) (- 3) 200"
  have e: "create_patient_medication_outcomes exact_ops stable_sort_values tl_three_rows = Inr [?r]"
    by code_simp
  have f: "find (\<lambda>x. timeline_key x = outcome_key ?r) tl_three_rows =
      Some (tlr (- 40) (Num 8) ''mg/dL'')"
    by code_simp
  from description_and_units_from_first_row[of exact_ops stable_sort_values tl_three_rows] e
  have "\<exists>first. find (\<lambda>x. timeline_key x = outcome_key ?r) tl_three_rows = Some first \<and>
        out_obs_description ?r = tl_obs_description first \<and> out_units ?r = tl_units first"
    by auto
  then have u: "out_units ?r = tl_units (tlr (- 40) (Num 8) ''mg/dL'')"
    "out_obs_description ?r = tl_obs_description (tlr (- 40) (Num 8) ''mg/dL'')"
    unfolding f by auto
  have d: "out_pre_date ?r = tl_obs_date (tlr (- 3) (Num 9) ''%'')"
    "out_post_date ?r = tl_obs_date (tlr 200 (Num 7) ''mmol/L'')"
    "tl_units (tlr (- 40) (Num 8) ''mg/dL'') \<noteq> tl_units (tlr (- 3) (Num 9) ''%'')"
    "tl_units (tlr (- 40) (Num 8) ''mg/dL'') \<noteq> tl_units (tlr 200 (Num 7) ''mmol/L'')"
    by (simp_all add: outcome_def tlr_def)
  from e f u d show ?thesis by (intro conjI)
qed

end
